theory Spec2Isabelle
  imports Complex_Main "HOL-Library.AList"
begin

section \<open>Text\<close>

text \<open>
  A Python \<open>str\<close> is modelled as a \<^typ>\<open>string\<close> with one \<^typ>\<open>char\<close> per code point, so
  the model covers the code points below 256. Every literal of \<open>sidco_scraper.py\<close> lies in
  that range; its accented letters are written by code point (\<open>CHR 0xF3\<close> for o-acute,
  \<open>CHR 0xE1\<close> for a-acute).

  \<open>isspace\<close> is Python's Unicode white space restricted to that range: it is what
  \<open>str.strip()\<close> and the regular expression class \<open>\s\<close> share. \<open>float()\<close> skips
  less: below 128 the white space of C only, which leaves out the four separators
  \<open>0x1C\<close> to \<open>0x1F\<close>. The only decimal digits below 256 are the ASCII ones.
\<close>

definition isspace :: "char \<Rightarrow> bool" where
  "isspace c = (c \<in> set [CHR 0x09, CHR 0x0A, CHR 0x0B, CHR 0x0C, CHR 0x0D,
                          CHR 0x1C, CHR 0x1D, CHR 0x1E, CHR 0x1F, CHR 0x20,
                          CHR 0x85, CHR 0xA0])"

definition isspace_float :: "char \<Rightarrow> bool" where
  "isspace_float c = (c \<in> set [CHR 0x09, CHR 0x0A, CHR 0x0B, CHR 0x0C, CHR 0x0D, CHR 0x20,
                                CHR 0x85, CHR 0xA0])"

definition isdigit :: "char \<Rightarrow> bool" where
  "isdigit c = (c \<in> set ''0123456789'')"

definition digit_val :: "char \<Rightarrow> nat" where
  "digit_val c = of_char c - 48"

definition nat_of_digits :: "string \<Rightarrow> nat" where
  "nat_of_digits ds = foldl (\<lambda>n c. 10 * n + digit_val c) 0 ds"

definition lower :: "char \<Rightarrow> char" where
  \<comment> \<open>lower-casing of the ASCII letters\<close>
  "lower c = (case map_of (zip ''ABCDEFGHIJKLMNOPQRSTUVWXYZ'' ''abcdefghijklmnopqrstuvwxyz'') c of
                Some l \<Rightarrow> l | None \<Rightarrow> c)"

definition lstrip :: "(char \<Rightarrow> bool) \<Rightarrow> string \<Rightarrow> string" where
  \<comment> \<open>the text without the white space at its start, for a given notion of white space\<close>
  "lstrip sp s = dropWhile sp s"

definition rstrip :: "(char \<Rightarrow> bool) \<Rightarrow> string \<Rightarrow> string" where
  "rstrip sp s = rev (dropWhile sp (rev s))"

definition strip :: "string \<Rightarrow> string" where
  \<comment> \<open>\<open>s.strip()\<close>\<close>
  "strip s = rstrip isspace (lstrip isspace s)"

definition startswith :: "string \<Rightarrow> string \<Rightarrow> bool" where
  \<comment> \<open>\<open>s.startswith(p)\<close>\<close>
  "startswith s p = (take (length p) s = p)"

fun contains :: "string \<Rightarrow> string \<Rightarrow> bool" where
  \<comment> \<open>\<open>needle in hay\<close> as \<open>contains hay needle\<close>\<close>
  "contains [] needle = (needle = [])"
| "contains (c # cs) needle = (startswith (c # cs) needle \<or> contains cs needle)"

definition replace1 :: "char \<Rightarrow> string \<Rightarrow> string \<Rightarrow> string" where
  \<comment> \<open>\<open>s.replace(old, new)\<close> for a pattern \<open>old\<close> of one character, the only use in the source\<close>
  "replace1 old new s = concat (map (\<lambda>c. if c = old then new else [c]) s)"

fun join :: "string \<Rightarrow> string list \<Rightarrow> string" where
  \<comment> \<open>\<open>sep.join(parts)\<close>\<close>
  "join sep [] = []"
| "join sep [p] = p"
| "join sep (p # q # ps) = p @ sep @ join sep (q # ps)"

fun split_ws :: "string \<Rightarrow> string list" where
  \<comment> \<open>the maximal runs of non-space characters: \<open>re.findall(r"\S+", s)\<close>\<close>
  "split_ws [] = []"
| "split_ws (c # cs) =
     (if isspace c then split_ws cs
      else (case split_ws cs of
              [] \<Rightarrow> [[c]]
            | w # ws \<Rightarrow> (case cs of
                          [] \<Rightarrow> [[c]]
                        | d # _ \<Rightarrow> if isspace d then [c] # w # ws else (c # w) # ws)))"

section \<open>Exceptions\<close>

text \<open>
  Every raise site the two parsers can reach. The three \<open>raise ValueError(...)\<close> of
  \<open>parsear_tabla_incendios\<close> differ by their message only; \<open>float()\<close> and
  \<open>datetime.strptime\<close> raise \<open>ValueError\<close> too. \<open>AttributeError\<close> is what calling
  \<open>.find\<close> on \<open>None\<close> raises.
\<close>

datatype valueerror =
    NoTitulo            \<comment> \<open>line 85: the title was not found\<close>
  | NoTabla             \<comment> \<open>line 102: no table with headers Fecha and Region\<close>
  | NoTbody             \<comment> \<open>line 106: the table has no tbody\<close>
  | FloatSyntax string  \<comment> \<open>\<open>float(s)\<close>: could not convert string to float\<close>
  | TimeFormat string   \<comment> \<open>\<open>strptime\<close>: the text does not match the format, or unconverted data remains\<close>
  | DateRange string    \<comment> \<open>\<open>strptime\<close>: year 0, or a day the month does not have\<close>

datatype exn = ValueError valueerror | AttributeError

section \<open>float()\<close>

text \<open>
  A Python float is a binary64 number. A finite one is represented by its exact value, a
  rational (\<open>Fin q\<close>); the others are the two infinities and NaN. The sign of a zero and of
  a NaN is not kept.

  \<open>binary64 neg num den\<close> is the conversion CPython makes of the decimal number
  \<open>num / den\<close>: the binary64 value nearest to it, the one with the even significand when
  two are as near, and the infinity when that value would reach \<open>2 ^ 1024\<close>. With \<open>e\<close>
  the binary exponent of the number (not below that of the subnormals) the significand is
  the number divided by \<open>2 ^ (e - 52)\<close> and rounded to an integer.
\<close>

datatype pyfloat = Fin rat | Infinite bool | NaN

fun bit_length :: "nat \<Rightarrow> nat" where
  \<comment> \<open>the number of binary digits of a number\<close>
  "bit_length n = (if n = 0 then 0 else Suc (bit_length (n div 2)))"

declare bit_length.simps [simp del]

definition round_half_even :: "nat \<Rightarrow> nat \<Rightarrow> nat" where
  \<comment> \<open>the integer nearest to \<open>a / b\<close>, the even one of two that are as near\<close>
  "round_half_even a b =
     (let q = a div b; r = a mod b
      in if 2 * r < b then q else if b < 2 * r then Suc q else if even q then q else Suc q)"

definition pow2 :: "int \<Rightarrow> rat" where
  "pow2 e = (if 0 \<le> e then 2 ^ nat e else 1 / 2 ^ nat (- e))"

definition scaled_le :: "nat \<Rightarrow> int \<Rightarrow> nat \<Rightarrow> bool" where
  \<comment> \<open>\<open>den * 2 ^ e \<le> num\<close> for an exponent of either sign\<close>
  "scaled_le den e num =
     (if 0 \<le> e then den * 2 ^ nat e \<le> num else den \<le> num * 2 ^ nat (- e))"

definition binary64 :: "bool \<Rightarrow> nat \<Rightarrow> nat \<Rightarrow> pyfloat" where
  "binary64 neg num den =
     (if num = 0 then Fin 0
      else (let e0 = int (bit_length num) - int (bit_length den);
                e = (if scaled_le den e0 num then e0 else e0 - 1);
                e' = max e (- 1022);
                sh = 52 - e';
                n = (if 0 \<le> sh then round_half_even (num * 2 ^ nat sh) den
                     else round_half_even num (den * 2 ^ nat (- sh)))
            in if 1023 < e \<or> (e' = 1023 \<and> 2 ^ 53 \<le> n) then Infinite neg
               else Fin ((if neg then - 1 else 1) * of_nat n * pow2 (e' - 52))))"

definition MAX_DIGITS :: nat where
  \<comment> \<open>the most digits \<open>float\<close> reads, in the number without its leading zeros and after
      the point\<close>
  "MAX_DIGITS = 1000000000"

definition skip_sign :: "string \<Rightarrow> bool \<times> string" where
  \<comment> \<open>an optional sign; True for \<open>-\<close>\<close>
  "skip_sign s = (case s of
       [] \<Rightarrow> (False, [])
     | c # r \<Rightarrow> if c = CHR ''-'' then (True, r) else if c = CHR ''+'' then (False, r) else (False, s))"

definition parse_exponent :: "string \<Rightarrow> int \<times> string" where
  \<comment> \<open>\<open>[eE][+-]?digits\<close>; an exponent with no digit is not consumed\<close>
  "parse_exponent s = (case s of
       [] \<Rightarrow> (0, s)
     | c # r \<Rightarrow>
         if c = CHR ''e'' \<or> c = CHR ''E'' then
           (let (esign, r1) = skip_sign r; ds = takeWhile isdigit r1
            in if ds = [] then (0, s)
               else (if esign then - int (nat_of_digits ds) else int (nat_of_digits ds),
                     dropWhile isdigit r1))
         else (0, s))"

definition too_many_digits :: "string \<Rightarrow> string \<Rightarrow> bool" where
  \<comment> \<open>the digits before and after the point are more than \<open>float\<close> reads: the count
      leaves out the zeros the number starts with\<close>
  "too_many_digits ip fp =
     (let ip0 = dropWhile (\<lambda>c. c = CHR ''0'') ip;
          ndigits = (if ip0 = [] then length (dropWhile (\<lambda>c. c = CHR ''0'') fp)
                     else length ip0 + length fp)
      in MAX_DIGITS < ndigits \<or> MAX_DIGITS < length fp)"

definition decimal_value :: "bool \<Rightarrow> nat \<Rightarrow> int \<Rightarrow> pyfloat" where
  \<comment> \<open>the float of \<open>m * 10 ^ e10\<close>, negated when the sign is set\<close>
  "decimal_value sign m e10 =
     (if 0 \<le> e10 then binary64 sign (m * 10 ^ nat e10) 1
      else binary64 sign m (10 ^ nat (- e10)))"

definition dg_strtod :: "string \<Rightarrow> (pyfloat \<times> string) option" where
  \<comment> \<open>the longest decimal literal at the start of the text and what follows it; None when
      the mantissa has no digit or too many. CPython also bounds the exponent, at a value
      so large that the conversion is the same.\<close>
  "dg_strtod s =
     (let (sign, s1) = skip_sign s;
          ip = takeWhile isdigit s1;
          s2 = dropWhile isdigit s1;
          (fp, s3) = (case s2 of
                        [] \<Rightarrow> ([], s2)
                      | c # r \<Rightarrow> if c = CHR ''.'' then (takeWhile isdigit r, dropWhile isdigit r)
                                 else ([], s2))
      in if ip = [] \<and> fp = [] then None
         else if too_many_digits ip fp then None
         else (let (e, s4) = parse_exponent s3
               in Some (decimal_value sign (nat_of_digits (ip @ fp)) (e - int (length fp)), s4)))"

definition ci_prefix :: "string \<Rightarrow> string \<Rightarrow> bool" where
  \<comment> \<open>the text \<open>s\<close> starts with the lower-case word \<open>w\<close>, whatever the case of its letters\<close>
  "ci_prefix w s = (map lower (take (length w) s) = w)"

definition parse_inf_or_nan :: "string \<Rightarrow> (pyfloat \<times> string) option" where
  "parse_inf_or_nan s =
     (let (neg, r) = skip_sign s
      in if ci_prefix ''inf'' r then
           (let r3 = drop 3 r
            in Some (Infinite neg, if ci_prefix ''inity'' r3 then drop 5 r3 else r3))
         else if ci_prefix ''nan'' r then Some (NaN, drop 3 r)
         else None)"

definition string_to_double :: "string \<Rightarrow> (pyfloat \<times> string) option" where
  \<comment> \<open>a decimal literal, else an infinity or a NaN\<close>
  "string_to_double s = (case dg_strtod s of Some r \<Rightarrow> Some r | None \<Rightarrow> parse_inf_or_nan s)"

definition float_from_string_inner :: "string \<Rightarrow> string \<Rightarrow> exn + pyfloat" where
  \<comment> \<open>white space around the number is dropped; the whole of the rest must convert.
      \<open>orig\<close> is the text of the error message.\<close>
  "float_from_string_inner orig s =
     (let s1 = lstrip isspace_float s
      in if s1 = [] then Inl (ValueError (FloatSyntax orig))
         else (case string_to_double (rstrip isspace_float s1) of
                 None \<Rightarrow> Inl (ValueError (FloatSyntax orig))
               | Some (x, rest) \<Rightarrow>
                   if rest \<noteq> [] then Inl (ValueError (FloatSyntax orig)) else Inr x))"

fun underscores_ok :: "char \<Rightarrow> string \<Rightarrow> bool" where
  \<comment> \<open>an underscore stands between two digits; the first argument is the previous character\<close>
  "underscores_ok prev [] = (prev \<noteq> CHR ''_'')"
| "underscores_ok prev (c # cs) =
     (if c = CHR ''_'' then isdigit prev \<and> underscores_ok c cs
      else \<not> (prev = CHR ''_'' \<and> \<not> isdigit c) \<and> underscores_ok c cs)"

definition py_float :: "string \<Rightarrow> exn + pyfloat" where
  \<comment> \<open>\<open>float(s)\<close> for a \<open>str\<close>\<close>
  "py_float s =
     (if CHR ''_'' \<in> set s then
        (if underscores_ok (CHR 0x00) s
         then float_from_string_inner s (filter (\<lambda>c. c \<noteq> CHR ''_'') s)
         else Inl (ValueError (FloatSyntax s)))
      else float_from_string_inner s s)"

section \<open>datetime.strptime(text, "%d-%b-%Y %H:%M")\<close>

text \<open>
  \<open>strptime\<close> turns the format into the regular expression
  \<^verbatim>\<open>(3[0-1]|[1-2]\d|0[1-9]|[1-9]| [1-9])-(jan|...|dec)-(\d\d\d\d)\s+(2[0-3]|[0-1]\d|\d):([0-5]\d|\d)\<close>
  (letters matched whatever their case), matches it at the start of the text, and raises
  \<open>ValueError\<close> when it does not match, when text remains after the match, or when the
  fields are not a date. The program never sets a locale, so the month abbreviations are
  those of the C locale.

  Each piece of the expression is a function from the text to the list of its matches, in
  the order the matcher tries them: a match is what it captured and what follows it.
\<close>

record datetime =
  year :: nat
  month :: nat
  day :: nat
  hour :: nat
  minute :: nat
  second :: nat
  microsecond :: nat

definition a_month :: "string list" where
  \<comment> \<open>the month abbreviations, from index 1\<close>
  "a_month = ['''', ''jan'', ''feb'', ''mar'', ''apr'', ''may'', ''jun'',
              ''jul'', ''aug'', ''sep'', ''oct'', ''nov'', ''dec'']"

fun index :: "string list \<Rightarrow> string \<Rightarrow> nat" where
  \<comment> \<open>\<open>xs.index(x)\<close> for an \<open>x\<close> the list holds\<close>
  "index [] x = 0"
| "index (y # ys) x = (if y = x then 0 else Suc (index ys x))"

definition one_of :: "string \<Rightarrow> char \<Rightarrow> bool" where
  "one_of cs c = (c \<in> set cs)"

definition alt1 :: "(char \<Rightarrow> bool) \<Rightarrow> string \<Rightarrow> (string \<times> string) list" where
  "alt1 p s = (case s of a # r \<Rightarrow> if p a then [([a], r)] else [] | _ \<Rightarrow> [])"

definition alt2 :: "(char \<Rightarrow> bool) \<Rightarrow> (char \<Rightarrow> bool) \<Rightarrow> string \<Rightarrow> (string \<times> string) list" where
  "alt2 p q s = (case s of a # b # r \<Rightarrow> if p a \<and> q b then [([a, b], r)] else [] | _ \<Rightarrow> [])"

definition lit :: "char \<Rightarrow> string \<Rightarrow> string list" where
  "lit c s = (case s of a # r \<Rightarrow> if a = c then [r] else [] | _ \<Rightarrow> [])"

definition re_d :: "string \<Rightarrow> (string \<times> string) list" where
  "re_d s = alt2 (one_of ''3'') (one_of ''01'') s
          @ alt2 (one_of ''12'') isdigit s
          @ alt2 (one_of ''0'') (one_of ''123456789'') s
          @ alt1 (one_of ''123456789'') s
          @ alt2 (one_of '' '') (one_of ''123456789'') s"

definition re_b :: "string \<Rightarrow> (string \<times> string) list" where
  "re_b s = (if map lower (take 3 s) \<in> set (tl a_month) then [(take 3 s, drop 3 s)] else [])"

definition re_Y :: "string \<Rightarrow> (string \<times> string) list" where
  "re_Y s = (case s of
       a # b # c # d # r \<Rightarrow>
         if isdigit a \<and> isdigit b \<and> isdigit c \<and> isdigit d then [([a, b, c, d], r)] else []
     | _ \<Rightarrow> [])"

definition re_ws :: "string \<Rightarrow> string list" where
  \<comment> \<open>\<open>\s+\<close>: the longest run of white space first, then the shorter ones\<close>
  "re_ws s = map (\<lambda>k. drop k s) (rev [1 ..< Suc (length (takeWhile isspace s))])"

definition re_H :: "string \<Rightarrow> (string \<times> string) list" where
  "re_H s = alt2 (one_of ''2'') (one_of ''0123'') s
          @ alt2 (one_of ''01'') isdigit s
          @ alt1 isdigit s"

definition re_M :: "string \<Rightarrow> (string \<times> string) list" where
  "re_M s = alt2 (one_of ''012345'') isdigit s @ alt1 isdigit s"

definition format_regex_match ::
  "string \<Rightarrow> (string \<times> string \<times> string \<times> string \<times> string \<times> string) list" where
  \<comment> \<open>every way the expression matches at the start of the text, the matcher's first choice
      first: the groups d, b, Y, H, M and the text after the match\<close>
  "format_regex_match s =
     [(d, b, y, h, m, r9).
        (d, r1) \<leftarrow> re_d s, r2 \<leftarrow> lit CHR ''-'' r1,
        (b, r3) \<leftarrow> re_b r2, r4 \<leftarrow> lit CHR ''-'' r3,
        (y, r5) \<leftarrow> re_Y r4, r6 \<leftarrow> re_ws r5,
        (h, r7) \<leftarrow> re_H r6, r8 \<leftarrow> lit CHR '':'' r7,
        (m, r9) \<leftarrow> re_M r8]"

definition is_leap :: "nat \<Rightarrow> bool" where
  "is_leap y = (y mod 4 = 0 \<and> (y mod 100 \<noteq> 0 \<or> y mod 400 = 0))"

definition days_in_month :: "nat \<Rightarrow> nat \<Rightarrow> nat" where
  "days_in_month y m =
     (if m = 2 then (if is_leap y then 29 else 28)
      else if m = 4 \<or> m = 6 \<or> m = 9 \<or> m = 11 then 30 else 31)"

definition strptime :: "string \<Rightarrow> exn + datetime" where
  "strptime data_string =
     (case format_regex_match data_string of
        [] \<Rightarrow> Inl (ValueError (TimeFormat data_string))
      | (d, b, y, h, m, rest) # _ \<Rightarrow>
          if rest \<noteq> [] then Inl (ValueError (TimeFormat data_string))
          else (let yr = nat_of_digits y;
                    mo = index a_month (map lower b);
                    dy = nat_of_digits (dropWhile isspace d)
                in if yr < 1 \<or> days_in_month yr mo < dy
                   then Inl (ValueError (DateRange data_string))
                   else Inr \<lparr>year = yr, month = mo, day = dy,
                             hour = nat_of_digits h, minute = nat_of_digits m,
                             second = 0, microsecond = 0\<rparr>))"

definition parse_fecha :: "string \<Rightarrow> exn + datetime option" where
  \<comment> \<open>lines 173-178: \<open>fecha_dt\<close>; only \<open>ValueError\<close> is caught\<close>
  "parse_fecha fecha_raw =
     (if fecha_raw \<noteq> [] then
        (case strptime fecha_raw of
           Inr dt \<Rightarrow> Inr (Some dt)
         | Inl (ValueError v) \<Rightarrow> Inr None
         | Inl AttributeError \<Rightarrow> Inl AttributeError)
      else Inr None)"

section \<open>re.search for the linkMapa call\<close>

text \<open>
  The pattern is \<^verbatim>\<open>linkMapa\(this,\s*([\-0-9\.]+),\s*([\-0-9\.]+)\)\<close>. No character of
  the class \<^verbatim>\<open>[\-0-9\.]\<close> is white space, a comma or a closing parenthesis, so at a given
  start each repetition has one length that can lead to a match, the longest;
  \<open>re.search\<close> returns the match at the leftmost start that has one.
\<close>

definition is_numchar :: "char \<Rightarrow> bool" where
  "is_numchar c = (c = CHR ''-'' \<or> isdigit c \<or> c = CHR ''.'')"

definition match_linkMapa :: "string \<Rightarrow> (string \<times> string) option" where
  \<comment> \<open>the two groups of a match that starts at the first character\<close>
  "match_linkMapa s =
     (if startswith s ''linkMapa(this,'' then
        (let r1 = dropWhile isspace (drop 14 s);
             g1 = takeWhile is_numchar r1;
             r2 = dropWhile is_numchar r1
         in if g1 = [] then None
            else (case r2 of
                    [] \<Rightarrow> None
                  | c # r3 \<Rightarrow>
                      if c = CHR '','' then
                        (let r4 = dropWhile isspace r3;
                             g2 = takeWhile is_numchar r4;
                             r5 = dropWhile is_numchar r4
                         in if g2 = [] then None
                            else (case r5 of
                                    [] \<Rightarrow> None
                                  | c' # _ \<Rightarrow> if c' = CHR '')'' then Some (g1, g2) else None))
                      else None))
      else None)"

fun re_search :: "string \<Rightarrow> (string \<times> string) option" where
  "re_search [] = None"
| "re_search (c # cs) =
     (case match_linkMapa (c # cs) of Some g \<Rightarrow> Some g | None \<Rightarrow> re_search cs)"

definition latlon_onclick :: "string \<Rightarrow> exn + (pyfloat option \<times> pyfloat option)" where
  \<comment> \<open>lines 230 and 234-240: \<open>lat\<close> and \<open>lon\<close> from the text of the onclick attribute\<close>
  "latlon_onclick onclick =
     (case re_search onclick of
        None \<Rightarrow> Inr (None, None)
      | Some (g1, g2) \<Rightarrow>
          (case py_float g1 of
             Inl e \<Rightarrow> Inl e
           | Inr lat \<Rightarrow>
               (case py_float g2 of
                  Inl e \<Rightarrow> Inl e
                | Inr lon \<Rightarrow> Inr (Some lat, Some lon))))"

section \<open>The parsed document\<close>

text \<open>
  Both parsers start with \<open>BeautifulSoup(html, "lxml")\<close> and read the resulting tree only;
  the model starts from that tree. A node is a tag (name, attributes, children), a text
  string, or a string of another kind (a comment, the content of a script), which
  \<open>get_text\<close> leaves out. An attribute is kept as its text; the \<open>class\<close> attribute is
  read as the list of its words.

  \<open>located\<close> lists a node and its descendants in document order, each with its position:
  the indices of the children that lead to it from the root. The position is what
  \<open>find_parent\<close> needs; the other searches read the nodes only.
\<close>

datatype node =
    Tag string "(string \<times> string) list" "node list"
  | NavigableString string
  | Comment string

fun located :: "nat list \<Rightarrow> node \<Rightarrow> (nat list \<times> node) list"
  and located_list :: "nat list \<Rightarrow> nat \<Rightarrow> node list \<Rightarrow> (nat list \<times> node) list" where
  "located p (Tag n a cs) = (p, Tag n a cs) # located_list p 0 cs"
| "located p (NavigableString s) = [(p, NavigableString s)]"
| "located p (Comment s) = [(p, Comment s)]"
| "located_list p i [] = []"
| "located_list p i (c # cs) = located (p @ [i]) c @ located_list p (Suc i) cs"

definition descendants_at :: "node \<Rightarrow> (nat list \<times> node) list" where
  \<comment> \<open>the descendants of the root, with their positions\<close>
  "descendants_at soup = tl (located [] soup)"

definition descendants :: "node \<Rightarrow> node list" where
  "descendants e = map snd (descendants_at e)"

fun is_tag :: "string list \<Rightarrow> node \<Rightarrow> bool" where
  \<comment> \<open>a tag with one of the names\<close>
  "is_tag names (Tag n a cs) = (n \<in> set names)"
| "is_tag names (NavigableString s) = False"
| "is_tag names (Comment s) = False"

definition find_all :: "string list \<Rightarrow> node \<Rightarrow> node list" where
  \<comment> \<open>\<open>e.find_all(names)\<close>\<close>
  "find_all names e = filter (is_tag names) (descendants e)"

definition find_elem :: "string list \<Rightarrow> node \<Rightarrow> node option" where
  \<comment> \<open>\<open>e.find(name)\<close>\<close>
  "find_elem names e = List.find (is_tag names) (descendants e)"

fun ancestors :: "nat list \<Rightarrow> node \<Rightarrow> node list" where
  \<comment> \<open>the nodes above the position, the root first\<close>
  "ancestors [] n = []"
| "ancestors (i # p) (Tag t a cs) =
     (if i < length cs then Tag t a cs # ancestors p (cs ! i) else [])"
| "ancestors (i # p) (NavigableString s) = []"
| "ancestors (i # p) (Comment s) = []"

definition find_parent :: "string \<Rightarrow> node \<Rightarrow> nat list \<Rightarrow> node option" where
  \<comment> \<open>\<open>e.find_parent(name)\<close> for the element at a position of the document: the nearest
      ancestor with the name\<close>
  "find_parent name soup p = List.find (is_tag [name]) (rev (ancestors p soup))"

fun attrs :: "node \<Rightarrow> (string \<times> string) list" where
  "attrs (Tag n a cs) = a"
| "attrs (NavigableString s) = []"
| "attrs (Comment s) = []"

definition get_attr :: "node \<Rightarrow> string \<Rightarrow> string option" where
  "get_attr e k = map_of (attrs e) k"

definition class_list :: "node \<Rightarrow> string list" where
  \<comment> \<open>\<open>e.get("class", [])\<close>\<close>
  "class_list e = (case get_attr e ''class'' of None \<Rightarrow> [] | Some v \<Rightarrow> split_ws v)"

fun tag_string :: "node \<Rightarrow> string option" where
  \<comment> \<open>\<open>tag.string\<close>: the one string under a chain of only children\<close>
  "tag_string (Tag n a [c]) = tag_string c"
| "tag_string (Tag n a cs) = None"
| "tag_string (NavigableString s) = Some s"
| "tag_string (Comment s) = Some s"

fun all_strings :: "node \<Rightarrow> string list" where
  \<comment> \<open>the text strings under a node, in document order\<close>
  "all_strings (Tag n a cs) = concat (map all_strings cs)"
| "all_strings (NavigableString s) = [s]"
| "all_strings (Comment s) = []"

definition get_text :: "string \<Rightarrow> node \<Rightarrow> string" where
  \<comment> \<open>\<open>e.get_text(sep, strip=True)\<close>\<close>
  "get_text sep e = join sep (filter (\<lambda>s. s \<noteq> []) (map strip (all_strings e)))"

definition string_contains :: "string \<Rightarrow> string list \<Rightarrow> node \<Rightarrow> bool" where
  \<comment> \<open>the filter of \<open>soup.find(name, string=lambda t: t and marker in t)\<close>\<close>
  "string_contains marker names e =
     (is_tag names e \<and>
      (case tag_string e of None \<Rightarrow> False | Some t \<Rightarrow> contains t marker))"

section \<open>parsear_tabla_incendios\<close>

definition SIDCO_BASE :: string where
  "SIDCO_BASE = ''https://sidco.conaf.cl''"

record fila =
  alerta_titulo :: string
  alerta_codigo :: "string option"
  fecha_raw :: string
  fecha :: "datetime option"
  region :: string
  nombre :: string
  ambito :: string
  comuna :: string
  estado :: string
  superficie_ha :: "pyfloat option"
  url_poligono :: "string option"
  url_ficha :: "string option"
  url_archivos :: "string option"

definition tiene_encabezados :: "node \<Rightarrow> bool" where
  \<comment> \<open>lines 92-97: the table has a \<open>thead\<close> with the cells Fecha and Regi\<open>o\<close>n\<close>
  "tiene_encabezados t =
     (case find_elem [''thead''] t of
        None \<Rightarrow> False
      | Some thead \<Rightarrow>
          (let header_cells = map (get_text []) (find_all [''td'', ''th''] thead)
           in ''Fecha'' \<in> set header_cells \<and> (''Regi'' @ [CHR 0xF3] @ ''n'') \<in> set header_cells))"

definition es_tabla :: "node \<Rightarrow> bool" where
  \<comment> \<open>the filter of \<open>find_all_next("table", class_="tabla")\<close>\<close>
  "es_tabla e = (is_tag [''table''] e \<and> ''tabla'' \<in> set (class_list e))"

definition alerta_codigo_de :: "string list \<Rightarrow> string option" where
  \<comment> \<open>lines 119-126: \<open>next((clase for clase in ... if clase.startswith(...)), None)\<close>\<close>
  "alerta_codigo_de clases = List.find (\<lambda>clase. startswith clase ''incendio-estado-alerta-'') clases"

definition alerta :: "node \<Rightarrow> string \<times> string option" where
  \<comment> \<open>lines 116-129: \<open>alerta_titulo\<close> and \<open>alerta_codigo\<close> from the first cell\<close>
  "alerta td =
     (case find_elem [''span''] td of
        Some alerta_span \<Rightarrow>
          (case get_attr alerta_span ''title'' of None \<Rightarrow> [] | Some v \<Rightarrow> v,
           alerta_codigo_de (class_list alerta_span))
      | None \<Rightarrow> ([], Some []))"

definition superficie_de :: "string \<Rightarrow> exn + pyfloat option" where
  \<comment> \<open>lines 139-145, from the text of the area cell\<close>
  "superficie_de txt =
     (let superficie_txt = replace1 CHR '','' ''.'' (replace1 CHR ''.'' [] txt)
      in if superficie_txt \<noteq> [] then
           (case py_float superficie_txt of Inl e \<Rightarrow> Inl e | Inr x \<Rightarrow> Inr (Some x))
         else Inr None)"

definition url_de :: "node \<Rightarrow> string option" where
  \<comment> \<open>lines 148-170: the absolute URL of the first link of a cell\<close>
  "url_de td =
     (case find_elem [''a''] td of
        None \<Rightarrow> None
      | Some a \<Rightarrow> (case get_attr a ''href'' of None \<Rightarrow> None | Some h \<Rightarrow> Some (SIDCO_BASE @ h)))"

definition fila_de :: "node list \<Rightarrow> exn + fila" where
  \<comment> \<open>lines 115-196: the record of a row with at least 12 cells\<close>
  "fila_de tds =
     (case superficie_de (get_text [] (tds ! 7)) of
        Inl e \<Rightarrow> Inl e
      | Inr superficie \<Rightarrow>
          (case parse_fecha (get_text [] (tds ! 1)) of
             Inl e \<Rightarrow> Inl e
           | Inr fecha_dt \<Rightarrow>
               Inr \<lparr>alerta_titulo = fst (alerta (tds ! 0)),
                    alerta_codigo = snd (alerta (tds ! 0)),
                    fecha_raw = get_text [] (tds ! 1),
                    fecha = fecha_dt,
                    region = get_text [] (tds ! 2),
                    nombre = get_text [] (tds ! 3),
                    ambito = get_text [] (tds ! 4),
                    comuna = get_text [] (tds ! 5),
                    estado = get_text '' '' (tds ! 6),
                    superficie_ha = superficie,
                    url_poligono = url_de (tds ! 8),
                    url_ficha = url_de (tds ! 9),
                    url_archivos = url_de (tds ! 11)\<rparr>))"

fun filas_de :: "node list \<Rightarrow> fila list \<Rightarrow> exn + fila list" where
  \<comment> \<open>lines 110-196: the loop over the rows; the second argument is \<open>filas\<close>\<close>
  "filas_de [] filas = Inr filas"
| "filas_de (tr # trs) filas =
     (let tds = find_all [''td''] tr
      in if length tds < 12 then filas_de trs filas
         else (case fila_de tds of
                 Inl e \<Rightarrow> Inl e
               | Inr f \<Rightarrow> filas_de trs (filas @ [f])))"

definition buscar_tbody :: "node \<Rightarrow> exn + node" where
  \<comment> \<open>lines 83-106: the title, the table after it, its \<open>tbody\<close>. The elements after the
      title in document order are the rest of the walk.\<close>
  "buscar_tbody soup =
     (case dropWhile (\<lambda>e. \<not> string_contains ''Incendios forestales vigentes'' [''h1''] e)
             (descendants soup) of
        [] \<Rightarrow> Inl (ValueError NoTitulo)
      | h1 # next_elements \<Rightarrow>
          (case List.find tiene_encabezados (filter es_tabla next_elements) of
             None \<Rightarrow> Inl (ValueError NoTabla)
           | Some tabla_incendios \<Rightarrow>
               (case find_elem [''tbody''] tabla_incendios of
                  None \<Rightarrow> Inl (ValueError NoTbody)
                | Some tbody \<Rightarrow> Inr tbody)))"

definition parsear_tabla_incendios :: "node \<Rightarrow> exn + fila list" where
  \<comment> \<open>the rows handed to \<open>pd.DataFrame\<close>\<close>
  "parsear_tabla_incendios soup =
     (case buscar_tbody soup of
        Inl e \<Rightarrow> Inl e
      | Inr tbody \<Rightarrow> filas_de (find_all [''tr''] tbody) [])"

section \<open>parsear_ficha_incendio\<close>

datatype valor = Str string | Num pyfloat

type_synonym datos = "(string \<times> valor) list"

definition latlon_celda :: "node \<Rightarrow> exn + (pyfloat option \<times> pyfloat option)" where
  \<comment> \<open>lines 230-240\<close>
  "latlon_celda celda =
     (case find_elem [''a''] celda of
        None \<Rightarrow> Inr (None, None)
      | Some a_tag \<Rightarrow>
          latlon_onclick (case get_attr a_tag ''onclick'' of None \<Rightarrow> [] | Some v \<Rightarrow> v))"

definition coord_fila :: "node list \<Rightarrow> datos \<Rightarrow> exn + datos" where
  \<comment> \<open>lines 225-250: a row with at least 4 cells\<close>
  "coord_fila celdas datos =
     (let etiqueta = get_text [] (celdas ! 0);
          valor_op = get_text [] (celdas ! 1);
          valor_inv = get_text [] (celdas ! 3)
      in case latlon_celda (celdas ! 1) of
           Inl e \<Rightarrow> Inl e
         | Inr (lat, lon) \<Rightarrow>
             if contains etiqueta ''Coordenadas UTM'' then
               Inr (AList.update ''utm_investigadas'' (Str valor_inv)
                     (AList.update ''utm_operativas'' (Str valor_op) datos))
             else if contains etiqueta (''Coordenadas geogr'' @ [CHR 0xE1] @ ''ficas'') then
               (let d = AList.update ''geo_investigadas'' (Str valor_inv)
                          (AList.update ''geo_operativas'' (Str valor_op) datos)
                in case (lat, lon) of
                     (Some la, Some lo) \<Rightarrow>
                       Inr (AList.update ''lon_operativa'' (Num lo)
                             (AList.update ''lat_operativa'' (Num la) d))
                   | _ \<Rightarrow> Inr d)
             else Inr datos)"

fun coord_filas :: "node list \<Rightarrow> datos \<Rightarrow> exn + datos" where
  \<comment> \<open>lines 221-250: the loop over the rows\<close>
  "coord_filas [] datos = Inr datos"
| "coord_filas (tr # trs) datos =
     (let celdas = find_all [''td''] tr
      in if length celdas < 4 then coord_filas trs datos
         else (case coord_fila celdas datos of
                 Inl e \<Rightarrow> Inl e
               | Inr d \<Rightarrow> coord_filas trs d))"

definition coordenadas :: "node \<Rightarrow> datos \<Rightarrow> exn + datos" where
  \<comment> \<open>lines 216-250: the pass over the table of coordinates\<close>
  "coordenadas soup datos =
     (case List.find (\<lambda>e. string_contains ''Coordenadas operativas'' [''td''] (snd e))
             (descendants_at soup) of
        None \<Rightarrow> Inr datos
      | Some td_coord_op \<Rightarrow>
          (case find_parent ''table'' soup (fst td_coord_op) of
             None \<Rightarrow> Inl AttributeError
           | Some tabla_coord \<Rightarrow>
               (case find_elem [''tbody''] tabla_coord of
                  None \<Rightarrow> Inr datos
                | Some tbody \<Rightarrow> coord_filas (find_all [''tr''] tbody) datos)))"

definition mapeo :: "(string \<times> string) list" where
  "mapeo = [(''Temperatura:'', ''meteo_temperatura''),
            (''Nubosidad:'', ''meteo_nubosidad''),
            (''Hum. relativa:'', ''meteo_hum_relativa''),
            (''Velocidad viento:'', ''meteo_vel_viento''),
            (''Pendiente:'', ''meteo_pendiente''),
            (''Exposici'' @ [CHR 0xF3] @ ''n:'', ''meteo_exposicion''),
            (''Direccion viento:'', ''meteo_dir_viento''),
            (''Topografia:'', ''meteo_topografia''),
            (''Estacion Meteorol'' @ [CHR 0xF3] @ ''gica:'', ''meteo_estacion''),
            (''Fecha:'', ''meteo_fecha'')]"

fun cond_filas :: "node list \<Rightarrow> datos \<Rightarrow> datos" where
  \<comment> \<open>lines 274-282: the loop over the rows\<close>
  "cond_filas [] datos = datos"
| "cond_filas (tr # trs) datos =
     (let celdas = find_all [''td''] tr
      in if length celdas < 2 then cond_filas trs datos
         else (case map_of mapeo (get_text [] (celdas ! 0)) of
                 None \<Rightarrow> cond_filas trs datos
               | Some k \<Rightarrow>
                   cond_filas trs (AList.update k (Str (get_text [] (celdas ! 1))) datos)))"

definition condiciones :: "node \<Rightarrow> datos \<Rightarrow> exn + datos" where
  \<comment> \<open>lines 253-282: the pass over the table of initial conditions\<close>
  "condiciones soup datos =
     (case List.find
             (\<lambda>e. string_contains ''CONDICIONES METEOROLOGICAS Y TOPOGRAFICAS INICIALES'' [''td''] (snd e))
             (descendants_at soup) of
        None \<Rightarrow> Inr datos
      | Some td_cond \<Rightarrow>
          (case find_parent ''table'' soup (fst td_cond) of
             None \<Rightarrow> Inl AttributeError
           | Some tabla_cond \<Rightarrow>
               (case find_elem [''tbody''] tabla_cond of
                  None \<Rightarrow> Inr datos
                | Some tbody \<Rightarrow> Inr (cond_filas (find_all [''tr''] tbody) datos))))"

definition parsear_ficha_incendio :: "node \<Rightarrow> exn + datos" where
  "parsear_ficha_incendio soup =
     (case coordenadas soup [] of
        Inl e \<Rightarrow> Inl e
      | Inr datos \<Rightarrow> condiciones soup datos)"

section \<open>The date format, as the specification words it\<close>

text \<open>
  The specification gives the format of a date as \<open>day-monthAbbrev-year hour:minute\<close>. The
  predicate below says so without reference to \<open>strptime\<close>; the date parsing of the
  source is compared with it.
\<close>

definition digits12 :: "string \<Rightarrow> bool" where
  \<comment> \<open>one or two digits\<close>
  "digits12 s = ((length s = 1 \<or> length s = 2) \<and> list_all isdigit s)"

definition fecha_format :: "string \<Rightarrow> bool" where
  \<comment> \<open>The format of the specification, \<open>day-monthAbbrev-year hour:minute\<close>: a day of one or
      two digits (or a space and a digit), a month abbreviation in any case, a year of four
      digits, white space, an hour and a minute of one or two digits.\<close>
  "fecha_format s =
     (\<exists>d b y w h m.
        s = d @ ''-'' @ b @ ''-'' @ y @ w @ h @ '':'' @ m
        \<and> (digits12 d \<or> (\<exists>c. d = [CHR '' '', c] \<and> isdigit c))
        \<and> map lower b \<in> set (tl a_month)
        \<and> length y = 4 \<and> list_all isdigit y
        \<and> w \<noteq> [] \<and> list_all isspace w
        \<and> digits12 h \<and> digits12 m)"

section \<open>Example documents\<close>

text \<open>
  A listing page with the title, a table of class \<open>tabla\<close> whose header lacks the two
  labels, and the table of fires with given rows; a row of 12 cells with a given date and
  area; a detail page with both tables, the link of the geographic coordinates carrying a
  given onclick text.
\<close>

definition celda :: "string \<Rightarrow> node" where
  "celda t = Tag ''td'' [] [NavigableString t]"

definition fila12 :: "string \<Rightarrow> string \<Rightarrow> node" where
  "fila12 fecha_txt area_txt = Tag ''tr'' []
     [Tag ''td'' [] [Tag ''span'' [(''title'', ''Alerta Roja''),
                                  (''class'', ''foo incendio-estado-alerta-roja'')] []],
      celda fecha_txt, celda ''Biobio'', celda ''El Roble'', celda ''Forestal'', celda ''Yumbel'',
      Tag ''td'' [] [NavigableString '' En '', Tag ''b'' [] [NavigableString ''combate'']],
      celda area_txt,
      Tag ''td'' [] [Tag ''a'' [(''href'', ''/descarga/1'')] [NavigableString ''kml'']],
      Tag ''td'' [] [Tag ''a'' [(''href'', ''/ficha/1'')] []],
      celda [],
      Tag ''td'' [] [Tag ''a'' [] []]]"

definition fila3 :: node where
  "fila3 = Tag ''tr'' [] [celda ''a'', celda ''b'', celda ''c'']"

definition listado :: "node list \<Rightarrow> node list \<Rightarrow> node" where
  \<comment> \<open>the children of the table of fires after its header, so that it may lack a \<open>tbody\<close>\<close>
  "listado titulo cuerpo = Tag ''[document]'' [] [Tag ''html'' [] [Tag ''body'' []
     [Tag ''h1'' [] titulo,
      Tag ''table'' [(''class'', ''tabla x'')]
        [Tag ''thead'' [] [Tag ''tr'' [] [Tag ''th'' [] [NavigableString ''Otro'']]],
         Tag ''tbody'' [] []],
      Tag ''table'' [(''class'', ''x tabla'')]
        (Tag ''thead'' [] [Tag ''tr'' []
           [Tag ''th'' [] [NavigableString ''Alerta''],
            Tag ''th'' [] [NavigableString '' Fecha ''],
            Tag ''th'' [] [NavigableString (''Regi'' @ [CHR 0xF3] @ ''n'')]]]
         # cuerpo)]]]"

definition titulo_vigentes :: "node list" where
  "titulo_vigentes = [NavigableString '' Incendios forestales vigentes (2) '']"

definition ficha :: "string \<Rightarrow> node list \<Rightarrow> node" where
  \<comment> \<open>the onclick text of the link, and the children of the table of conditions\<close>
  "ficha onclick cond = Tag ''[document]'' [] [Tag ''html'' [] [Tag ''body'' []
     [Tag ''table'' [] [Tag ''tbody'' []
        [Tag ''tr'' [] [celda ''Coordenadas operativas''],
         Tag ''tr'' [] [celda ''Coordenadas UTM'', celda ''1 2'', celda [], celda ''3 4''],
         Tag ''tr'' [] [celda (''Coordenadas geogr'' @ [CHR 0xE1] @ ''ficas''),
           Tag ''td'' [] [Tag ''a'' [(''onclick'', onclick)] [NavigableString ''33 S 70 W'']],
           celda [], celda ''x'']]],
      Tag ''table'' [] cond]]]"

definition cond_filas_ej :: "node list" where
  "cond_filas_ej =
     [Tag ''tr'' [] [celda ''CONDICIONES METEOROLOGICAS Y TOPOGRAFICAS INICIALES''],
      Tag ''tr'' [] [celda ''Temperatura:'', celda ''25''],
      Tag ''tr'' [] [celda ''Otra:'', celda ''7'']]"

definition fila_ej :: fila where
  "fila_ej = \<lparr>alerta_titulo = ''Alerta Roja'',
         alerta_codigo = Some ''incendio-estado-alerta-roja'',
         fecha_raw = ''16-nov-2025 18:36'',
         fecha = Some \<lparr>year = 2025, month = 11, day = 16, hour = 18, minute = 36,
               second = 0, microsecond = 0\<rparr>,
         region = ''Biobio'', nombre = ''El Roble'', ambito = ''Forestal'',
         comuna = ''Yumbel'', estado = ''En combate'',
         superficie_ha = Some (Fin (2469 / 2)),
         url_poligono = Some ''https://sidco.conaf.cl/descarga/1'',
         url_ficha = Some ''https://sidco.conaf.cl/ficha/1'',
         url_archivos = None\<rparr>"

definition listado_sin_titulo :: node where
  "listado_sin_titulo = listado [NavigableString ''Incendios forestales extinguidos'']
                         [Tag ''tbody'' [] [fila3]]"

definition listado_sin_tbody :: node where
  "listado_sin_tbody = listado titulo_vigentes [fila3]"

definition tabla_sin_tbody :: node where
  "tabla_sin_tbody = Tag ''table'' [(''class'', ''x tabla'')]
        [Tag ''thead'' [] [Tag ''tr'' []
           [Tag ''th'' [] [NavigableString ''Alerta''],
            Tag ''th'' [] [NavigableString '' Fecha ''],
            Tag ''th'' [] [NavigableString (''Regi'' @ [CHR 0xF3] @ ''n'')]]], fila3]"

definition ficha_vacia :: node where
  "ficha_vacia = Tag ''[document]'' []
     [Tag ''table'' [] [Tag ''tbody'' [] [Tag ''tr'' [] [celda ''Temperatura:'', celda ''25'']]]]"

definition ficha_solo_cond :: node where
  "ficha_solo_cond = Tag ''[document]'' [] [Tag ''table'' [] [Tag ''tbody'' [] cond_filas_ej]]"

definition onclick_ej :: string where
  "onclick_ej = ''linkMapa(this, -33.45, -70.66)''"

definition datos_coord_ej :: datos where
  "datos_coord_ej =
     [(''utm_operativas'', Str ''1 2''), (''utm_investigadas'', Str ''3 4''),
      (''geo_operativas'', Str ''33 S 70 W''), (''geo_investigadas'', Str ''x''),
      (''lat_operativa'', Num (Fin (- 2353834492742861 / 70368744177664))),
      (''lon_operativa'', Num (Fin (- 2486127731796869 / 35184372088832)))]"

definition ficha_coord_sin_tbody :: node where
  "ficha_coord_sin_tbody = Tag ''[document]'' []
     [Tag ''table'' []
        [Tag ''tr'' [] [celda ''Coordenadas operativas''],
         Tag ''tr'' [] [celda ''Coordenadas UTM'', celda ''1 2'', celda [], celda ''3 4'']],
      Tag ''table'' [] [Tag ''tbody'' [] cond_filas_ej]]"

definition fecha_ej :: string where
  "fecha_ej = ''16-nov-2025 18:36''"

definition cuerpo_ej :: node where
  "cuerpo_ej = Tag ''tbody'' [] [fila12 fecha_ej ''1.234,5'', fila3, fila12 fecha_ej ''0,75'']"

definition cuerpo_si :: node where
  "cuerpo_si = Tag ''tbody'' [] [fila12 fecha_ej ''s/i'']"

definition cuerpo_punto :: node where
  "cuerpo_punto = Tag ''tbody'' [] [fila12 fecha_ej ''.'']"

definition onclick_malo :: string where
  "onclick_malo = ''linkMapa(this, -, -)''"

section \<open>Evaluation and text lemmas\<close>

lemmas char_defs = isspace_def isspace_float_def isdigit_def digit_val_def nat_of_digits_def lower_def one_of_def
  lstrip_def rstrip_def strip_def startswith_def

lemmas float_defs = py_float_def float_from_string_inner_def string_to_double_def dg_strtod_def
  parse_inf_or_nan_def ci_prefix_def parse_exponent_def skip_sign_def too_many_digits_def
  decimal_value_def MAX_DIGITS_def

lemmas binary64_defs = binary64_def round_half_even_def pow2_def scaled_le_def bit_length.simps

lemma py_float_1234: "py_float ''1234.5'' = Inr (Fin (2469 / 2))"
  by (simp add: float_defs char_defs) (simp add: binary64_defs)

lemma py_float_075: "py_float ''0.75'' = Inr (Fin (3 / 4))"
  by (simp add: float_defs char_defs) (simp add: binary64_defs)

lemma py_float_lat: "py_float ''-33.45'' = Inr (Fin (- 2353834492742861 / 70368744177664))"
  by (simp add: float_defs char_defs) (simp add: binary64_defs)

lemma py_float_lon: "py_float ''-70.66'' = Inr (Fin (- 2486127731796869 / 35184372088832))"
  by (simp add: float_defs char_defs) (simp add: binary64_defs)

lemma replace1_filter: "replace1 c [] s = filter (\<lambda>x. x \<noteq> c) s"
  by (induction s) (simp_all add: replace1_def)

lemma replace1_append: "replace1 c n (s @ t) = replace1 c n s @ replace1 c n t"
  by (simp add: replace1_def)

lemma replace1_cons: "replace1 c n (x # s) = (if x = c then n else [x]) @ replace1 c n s"
  by (simp add: replace1_def)

lemma replace1_absent: "c \<notin> set s \<Longrightarrow> replace1 c n s = s"
  by (induction s) (auto simp: replace1_def)

lemma isdigit_not_space: "isdigit c \<Longrightarrow> \<not> isspace_float c"
  by (auto simp: isdigit_def isspace_float_def)

lemma isdigit_chars:
  "isdigit c \<Longrightarrow> c \<noteq> CHR '','' \<and> c \<noteq> CHR ''.'' \<and> c \<noteq> CHR ''_'' \<and> c \<noteq> CHR ''-'' \<and> c \<noteq> CHR ''+''"
  by (auto simp: isdigit_def)

lemma takeWhile_digits:
  "\<forall>c\<in>set ds. isdigit c \<Longrightarrow> \<not> isdigit x \<Longrightarrow> takeWhile isdigit (ds @ x # r) = ds"
  by (induction ds) auto

lemma dropWhile_digits:
  "\<forall>c\<in>set ds. isdigit c \<Longrightarrow> \<not> isdigit x \<Longrightarrow> dropWhile isdigit (ds @ x # r) = x # r"
  by (induction ds) auto

lemma takeWhile_all: "\<forall>c\<in>set ds. P c \<Longrightarrow> takeWhile P ds = ds"
  by (induction ds) auto

lemma dropWhile_all: "\<forall>c\<in>set ds. P c \<Longrightarrow> dropWhile P ds = []"
  by (induction ds) auto

lemma rstrip_id: "s \<noteq> [] \<Longrightarrow> \<not> sp (last s) \<Longrightarrow> rstrip sp s = s"
  by (cases s rule: rev_cases) (simp_all add: rstrip_def)

section \<open>The alert of a row\<close>

lemmas dom_defs = find_all_def find_elem_def descendants_def descendants_at_def find_parent_def get_attr_def class_list_def
  get_text_def string_contains_def
lemmas strptime_defs = parse_fecha_def strptime_def format_regex_match_def re_d_def re_b_def
  re_Y_def re_ws_def re_H_def re_M_def alt1_def alt2_def lit_def a_month_def is_leap_def
  days_in_month_def
lemmas listado_defs = parsear_tabla_incendios_def buscar_tbody_def tiene_encabezados_def
  es_tabla_def alerta_def alerta_codigo_de_def superficie_de_def url_de_def fila_de_def
  SIDCO_BASE_def replace1_def
lemmas ejemplo_defs = celda_def fila12_def fila3_def listado_def titulo_vigentes_def ficha_def
  cond_filas_ej_def

lemma cells12: "length (find_all [''td''] (fila12 f a)) = 12"
  by (simp add: dom_defs ejemplo_defs)

lemma parse_fecha_ej: "parse_fecha ''16-nov-2025 18:36'' = Inr (Some \<lparr>year = 2025, month = 11, day = 16, hour = 18, minute = 36,
               second = 0, microsecond = 0\<rparr>)"
  by (simp add: strptime_defs char_defs)

lemma fila_de_ej: "fila_de (find_all [''td''] (fila12 ''16-nov-2025 18:36'' ''1.234,5'')) = Inr fila_ej"
  by (simp add: dom_defs ejemplo_defs listado_defs parse_fecha_ej py_float_1234 char_defs fila_ej_def)

lemma find_all_Nil_find_elem: "find_all names e = [] \<Longrightarrow> find_elem names e = None"
  by (simp add: find_all_def find_elem_def filter_empty_conv find_None_iff)

lemma alerta_codigo_de_None:
  "list_all (\<lambda>c. \<not> startswith c ''incendio-estado-alerta-'') clases \<Longrightarrow> alerta_codigo_de clases = None"
  by (simp add: alerta_codigo_de_def find_None_iff list_all_iff)

lemma alerta_codigo_de_first:
  "list_all (\<lambda>c. \<not> startswith c ''incendio-estado-alerta-'') pre
   \<Longrightarrow> startswith c ''incendio-estado-alerta-''
   \<Longrightarrow> alerta_codigo_de (pre @ c # post) = Some c"
  unfolding alerta_codigo_de_def by (induction pre) simp_all

lemma fila_de_alerta:
  "fila_de tds = Inr f \<Longrightarrow> alerta_titulo f = fst (alerta (tds ! 0)) \<and> alerta_codigo f = snd (alerta (tds ! 0))"
  by (auto simp: fila_de_def split: sum.splits)

text \<open>
  C7. The alert code of a row is the first class of the indicator (the first \<open>span\<close> of
  the first cell) that starts with \<open>incendio-estado-alerta-\<close>, as the whole class:
  the classes \<open>foo\<close>, \<open>incendio-estado-alerta-roja\<close> give the second one; classes none
  of which starts so give no code. A cell with no indicator gives an empty title and an
  empty code, and the record of the row carries the title and the code.
\<close>

theorem alert_code_extraction:
  "alerta_codigo_de [''foo'', ''incendio-estado-alerta-roja''] = Some ''incendio-estado-alerta-roja''
   \<and> (list_all (\<lambda>c. \<not> startswith c ''incendio-estado-alerta-'') clases
        \<longrightarrow> alerta_codigo_de clases = None)
   \<and> (list_all (\<lambda>c. \<not> startswith c ''incendio-estado-alerta-'') pre
        \<and> startswith c ''incendio-estado-alerta-''
        \<longrightarrow> alerta_codigo_de (pre @ c # post) = Some c)
   \<and> (find_elem [''span''] td = Some alerta_span
        \<longrightarrow> alerta td = (case get_attr alerta_span ''title'' of None \<Rightarrow> [] | Some v \<Rightarrow> v,
                         alerta_codigo_de (class_list alerta_span)))
   \<and> (find_elem [''span''] td' = None \<longrightarrow> alerta td' = ([], Some []))
   \<and> (fila_de tds = Inr f
        \<longrightarrow> alerta_titulo f = fst (alerta (tds ! 0)) \<and> alerta_codigo f = snd (alerta (tds ! 0)))"
proof -
  have "alerta_codigo_de [''foo'', ''incendio-estado-alerta-roja''] = Some ''incendio-estado-alerta-roja''"
    by (simp add: alerta_codigo_de_def startswith_def)
  moreover have "find_elem [''span''] td = Some alerta_span
        \<longrightarrow> alerta td = (case get_attr alerta_span ''title'' of None \<Rightarrow> [] | Some v \<Rightarrow> v,
                         alerta_codigo_de (class_list alerta_span))"
    by (simp add: alerta_def)
  moreover have "find_elem [''span''] td' = None \<longrightarrow> alerta td' = ([], Some [])"
    by (simp add: alerta_def)
  ultimately show ?thesis
    using alerta_codigo_de_None alerta_codigo_de_first fila_de_alerta by blast
qed

theorem alert_code_extraction_witness:
  "list_all (\<lambda>c. \<not> startswith c ''incendio-estado-alerta-'') [''foo'', ''bar'']
   \<and> alerta_codigo_de [''foo'', ''bar''] = None
   \<and> startswith ''incendio-estado-alerta-roja'' ''incendio-estado-alerta-''
   \<and> alerta_codigo_de ([''foo'', ''bar''] @ ''incendio-estado-alerta-roja'' # [''incendio-estado-alerta-verde''])
       = Some ''incendio-estado-alerta-roja''
   \<and> find_elem [''span''] (Tag ''td'' [] [Tag ''span'' [(''class'', ''a  incendio-estado-alerta-x'')] []])
       = Some (Tag ''span'' [(''class'', ''a  incendio-estado-alerta-x'')] [])
   \<and> alerta (Tag ''td'' [] [Tag ''span'' [(''class'', ''a  incendio-estado-alerta-x'')] []])
       = ([], Some ''incendio-estado-alerta-x'')
   \<and> find_elem [''span''] (celda ''x'') = None
   \<and> alerta (celda ''x'') = ([], Some [])
   \<and> fila_de (find_all [''td''] (fila12 ''16-nov-2025 18:36'' ''1.234,5'')) = Inr fila_ej
   \<and> alerta_titulo fila_ej = ''Alerta Roja''
   \<and> alerta_codigo fila_ej = Some ''incendio-estado-alerta-roja''"
  using alert_code_extraction [of "[''foo'', ''bar'']" "[''foo'', ''bar'']" "''incendio-estado-alerta-roja''"
      "[''incendio-estado-alerta-verde'']"
      "Tag ''td'' [] [Tag ''span'' [(''class'', ''a  incendio-estado-alerta-x'')] []]"
      "Tag ''span'' [(''class'', ''a  incendio-estado-alerta-x'')] []"
      "celda ''x''"
      "find_all [''td''] (fila12 ''16-nov-2025 18:36'' ''1.234,5'')" fila_ej] fila_de_ej
  by (simp add: dom_defs celda_def alerta_codigo_de_def char_defs fila_ej_def)

section \<open>A listing without its title or without a table body\<close>

lemmas ficha_defs = parsear_ficha_incendio_def coordenadas_def condiciones_def coord_fila_def
  latlon_celda_def latlon_onclick_def match_linkMapa_def is_numchar_def mapeo_def

lemma buscar_tbody_NoTitulo:
  assumes "\<forall>e\<in>set (descendants soup). \<not> string_contains ''Incendios forestales vigentes'' [''h1''] e"
  shows "buscar_tbody soup = Inl (ValueError NoTitulo)"
  by (simp add: buscar_tbody_def dropWhile_all[OF assms])

text \<open>
  C2. When no \<open>h1\<close> of the document has a string that contains
  \<open>Incendios forestales vigentes\<close>, \<open>parsear_tabla_incendios\<close> raises the
  \<open>ValueError\<close> of line 85 (the error the specification calls NotFoundError) and
  returns no rows.
\<close>

theorem listing_without_title:
  assumes "\<forall>e\<in>set (descendants soup).
             is_tag [''h1''] e \<longrightarrow>
             (\<forall>t. tag_string e = Some t \<longrightarrow> \<not> contains t ''Incendios forestales vigentes'')"
  shows "parsear_tabla_incendios soup = Inl (ValueError NoTitulo)"
proof -
  have "\<forall>e\<in>set (descendants soup). \<not> string_contains ''Incendios forestales vigentes'' [''h1''] e"
    using assms by (auto simp: string_contains_def split: option.splits)
  then show ?thesis
    by (simp add: parsear_tabla_incendios_def buscar_tbody_NoTitulo)
qed

theorem listing_without_title_witness:
  "list_all (\<lambda>e. \<not> string_contains ''Incendios forestales vigentes'' [''h1''] e)
     (descendants listado_sin_titulo)
   \<and> parsear_tabla_incendios listado_sin_titulo = Inl (ValueError NoTitulo)"
proof -
  have h: "list_all (\<lambda>e. \<not> string_contains ''Incendios forestales vigentes'' [''h1''] e)
     (descendants listado_sin_titulo)"
    by (simp add: listado_sin_titulo_def dom_defs ejemplo_defs char_defs)
  then have "\<forall>e\<in>set (descendants listado_sin_titulo).
             is_tag [''h1''] e \<longrightarrow>
             (\<forall>t. tag_string e = Some t \<longrightarrow> \<not> contains t ''Incendios forestales vigentes'')"
    by (auto simp: list_all_iff string_contains_def)
  from listing_without_title [OF this] h show ?thesis by simp
qed

text \<open>
  C6. When the title and a table of class \<open>tabla\<close> with the headers Fecha and
  Regi\<open>o\<close>n after it are found and that table has no \<open>tbody\<close>,
  \<open>parsear_tabla_incendios\<close> raises the \<open>ValueError\<close> of line 106 (the error the
  specification calls MalformedDocumentError).
\<close>

theorem listing_without_tbody:
  assumes "dropWhile (\<lambda>e. \<not> string_contains ''Incendios forestales vigentes'' [''h1''] e)
             (descendants soup) = h1 # next_elements"
    and "List.find tiene_encabezados (filter es_tabla next_elements) = Some tabla_incendios"
    and "find_all [''tbody''] tabla_incendios = []"
  shows "parsear_tabla_incendios soup = Inl (ValueError NoTbody)"
  using assms
  by (simp add: parsear_tabla_incendios_def buscar_tbody_def find_all_Nil_find_elem)

theorem listing_without_tbody_witness:
  "List.find tiene_encabezados (filter es_tabla
        (tl (dropWhile (\<lambda>e. \<not> string_contains ''Incendios forestales vigentes'' [''h1''] e)
               (descendants listado_sin_tbody)))) = Some tabla_sin_tbody
   \<and> find_all [''tbody''] tabla_sin_tbody = []
   \<and> parsear_tabla_incendios listado_sin_tbody = Inl (ValueError NoTbody)"
proof -
  let ?after = "dropWhile (\<lambda>e. \<not> string_contains ''Incendios forestales vigentes'' [''h1''] e)
               (descendants listado_sin_tbody)"
  have a: "?after = hd ?after # tl ?after"
    by (simp add: listado_sin_tbody_def dom_defs ejemplo_defs char_defs)
  have b: "List.find tiene_encabezados (filter es_tabla (tl ?after)) = Some tabla_sin_tbody"
    by (simp add: listado_sin_tbody_def tabla_sin_tbody_def dom_defs ejemplo_defs char_defs
        tiene_encabezados_def es_tabla_def)
  have c: "find_all [''tbody''] tabla_sin_tbody = []"
    by (simp add: tabla_sin_tbody_def dom_defs ejemplo_defs)
  from listing_without_tbody [OF a b c] b c show ?thesis by simp
qed

section \<open>A detail page without its tables\<close>

lemma find_descendants_at_None:
  "(\<forall>e\<in>set (descendants soup). \<not> P e) \<Longrightarrow> List.find (\<lambda>e. P (snd e)) (descendants_at soup) = None"
  by (auto simp: descendants_def find_None_iff)

lemma coordenadas_absent:
  "\<forall>e\<in>set (descendants soup). \<not> string_contains ''Coordenadas operativas'' [''td''] e
   \<Longrightarrow> coordenadas soup datos = Inr datos"
  by (simp add: coordenadas_def find_descendants_at_None)

lemma condiciones_absent:
  "\<forall>e\<in>set (descendants soup).
     \<not> string_contains ''CONDICIONES METEOROLOGICAS Y TOPOGRAFICAS INICIALES'' [''td''] e
   \<Longrightarrow> condiciones soup datos = Inr datos"
  by (simp add: condiciones_def find_descendants_at_None)

lemma sum_case_id: "(case x of Inl e \<Rightarrow> Inl e | Inr d \<Rightarrow> Inr d) = x"
  by (cases x) simp_all

text \<open>
  C8. A document with neither the cell \<open>Coordenadas operativas\<close> nor the cell
  \<open>CONDICIONES METEOROLOGICAS Y TOPOGRAFICAS INICIALES\<close> gives the empty mapping and
  no error. Each pass stands alone: without the first cell the result is that of the pass
  over the conditions, without the second it is that of the pass over the coordinates.
\<close>

theorem detail_without_tables:
  "((\<forall>e\<in>set (descendants soup). \<not> string_contains ''Coordenadas operativas'' [''td''] e)
     \<and> (\<forall>e\<in>set (descendants soup).
           \<not> string_contains ''CONDICIONES METEOROLOGICAS Y TOPOGRAFICAS INICIALES'' [''td''] e)
     \<longrightarrow> parsear_ficha_incendio soup = Inr [])
   \<and> ((\<forall>e\<in>set (descendants soup'). \<not> string_contains ''Coordenadas operativas'' [''td''] e)
     \<longrightarrow> parsear_ficha_incendio soup' = condiciones soup' [])
   \<and> ((\<forall>e\<in>set (descendants soup'').
           \<not> string_contains ''CONDICIONES METEOROLOGICAS Y TOPOGRAFICAS INICIALES'' [''td''] e)
     \<longrightarrow> parsear_ficha_incendio soup'' = coordenadas soup'' [])"
  by (auto simp: parsear_ficha_incendio_def coordenadas_absent condiciones_absent sum_case_id
      split: sum.splits)

lemma latlon_onclick_ej:
  "latlon_onclick onclick_ej = Inr (Some (Fin (- 2353834492742861 / 70368744177664)),
                                     Some (Fin (- 2486127731796869 / 35184372088832)))"
  by (simp add: onclick_ej_def latlon_onclick_def match_linkMapa_def is_numchar_def py_float_lat
      py_float_lon char_defs)

lemma coordenadas_ej: "coordenadas (ficha onclick_ej cond) [] = Inr datos_coord_ej"
  by (simp add: coordenadas_def coord_fila_def latlon_celda_def latlon_onclick_ej
      dom_defs ejemplo_defs char_defs datos_coord_ej_def)

theorem detail_without_tables_witness:
  "list_all (\<lambda>e. \<not> string_contains ''Coordenadas operativas'' [''td''] e) (descendants ficha_vacia)
   \<and> list_all (\<lambda>e. \<not> string_contains ''CONDICIONES METEOROLOGICAS Y TOPOGRAFICAS INICIALES'' [''td''] e)
        (descendants ficha_vacia)
   \<and> parsear_ficha_incendio ficha_vacia = Inr []
   \<and> list_all (\<lambda>e. \<not> string_contains ''Coordenadas operativas'' [''td''] e) (descendants ficha_solo_cond)
   \<and> parsear_ficha_incendio ficha_solo_cond = Inr [(''meteo_temperatura'', Str ''25'')]
   \<and> list_all (\<lambda>e. \<not> string_contains ''CONDICIONES METEOROLOGICAS Y TOPOGRAFICAS INICIALES'' [''td''] e)
        (descendants (ficha onclick_ej []))
   \<and> parsear_ficha_incendio (ficha onclick_ej []) = Inr datos_coord_ej"
proof -
  have a: "list_all (\<lambda>e. \<not> string_contains ''Coordenadas operativas'' [''td''] e) (descendants ficha_vacia)"
    by (simp add: ficha_vacia_def dom_defs ejemplo_defs char_defs)
  have b: "list_all (\<lambda>e. \<not> string_contains ''CONDICIONES METEOROLOGICAS Y TOPOGRAFICAS INICIALES'' [''td''] e)
        (descendants ficha_vacia)"
    by (simp add: ficha_vacia_def dom_defs ejemplo_defs char_defs)
  have c: "list_all (\<lambda>e. \<not> string_contains ''Coordenadas operativas'' [''td''] e) (descendants ficha_solo_cond)"
    by (simp add: ficha_solo_cond_def dom_defs ejemplo_defs char_defs)
  have d: "list_all (\<lambda>e. \<not> string_contains ''CONDICIONES METEOROLOGICAS Y TOPOGRAFICAS INICIALES'' [''td''] e)
        (descendants (ficha onclick_ej []))"
    by (simp add: dom_defs ejemplo_defs char_defs)
  have e: "condiciones ficha_solo_cond [] = Inr [(''meteo_temperatura'', Str ''25'')]"
    by (simp add: condiciones_def mapeo_def ficha_solo_cond_def dom_defs ejemplo_defs char_defs)
  from detail_without_tables [of ficha_vacia ficha_solo_cond "ficha onclick_ej []"] a b c d e
    coordenadas_ej [of "[]"]
  show ?thesis by (simp add: list_all_iff)
qed

section \<open>A detail table without a body\<close>

lemma coordenadas_sin_tbody:
  assumes "List.find (\<lambda>e. string_contains ''Coordenadas operativas'' [''td''] (snd e))
             (descendants_at soup) = Some td_coord_op"
    and "find_parent ''table'' soup (fst td_coord_op) = Some tabla_coord"
    and "find_all [''tbody''] tabla_coord = []"
  shows "coordenadas soup datos = Inr datos"
  using assms by (simp add: coordenadas_def find_all_Nil_find_elem)

lemma condiciones_sin_tbody:
  assumes "List.find
             (\<lambda>e. string_contains ''CONDICIONES METEOROLOGICAS Y TOPOGRAFICAS INICIALES'' [''td''] (snd e))
             (descendants_at soup) = Some td_cond"
    and "find_parent ''table'' soup (fst td_cond) = Some tabla_cond"
    and "find_all [''tbody''] tabla_cond = []"
  shows "condiciones soup datos = Inr datos"
  using assms by (simp add: condiciones_def find_all_Nil_find_elem)

text \<open>
  C10. When the marker cell of a pass is found and the table around it has no
  \<open>tbody\<close>, that pass leaves the mapping as it was and raises nothing, so the result of
  \<open>parsear_ficha_incendio\<close> is that of the other pass.
\<close>

theorem detail_table_without_tbody:
  "(List.find (\<lambda>e. string_contains ''Coordenadas operativas'' [''td''] (snd e))
       (descendants_at soup) = Some td_coord_op
     \<and> find_parent ''table'' soup (fst td_coord_op) = Some tabla_coord
     \<and> find_all [''tbody''] tabla_coord = []
    \<longrightarrow> coordenadas soup datos = Inr datos
        \<and> parsear_ficha_incendio soup = condiciones soup [])
   \<and> (List.find
         (\<lambda>e. string_contains ''CONDICIONES METEOROLOGICAS Y TOPOGRAFICAS INICIALES'' [''td''] (snd e))
         (descendants_at soup') = Some td_cond
     \<and> find_parent ''table'' soup' (fst td_cond) = Some tabla_cond
     \<and> find_all [''tbody''] tabla_cond = []
    \<longrightarrow> condiciones soup' datos' = Inr datos'
        \<and> parsear_ficha_incendio soup' = coordenadas soup' [])"
  by (auto simp: parsear_ficha_incendio_def coordenadas_sin_tbody condiciones_sin_tbody sum_case_id
      split: sum.splits)

theorem detail_table_without_tbody_witness:
  "List.find (\<lambda>e. string_contains ''Coordenadas operativas'' [''td''] (snd e))
       (descendants_at ficha_coord_sin_tbody) = Some ([0, 0, 0], celda ''Coordenadas operativas'')
   \<and> find_parent ''table'' ficha_coord_sin_tbody [0, 0, 0]
       = Some (Tag ''table'' []
                [Tag ''tr'' [] [celda ''Coordenadas operativas''],
                 Tag ''tr'' [] [celda ''Coordenadas UTM'', celda ''1 2'', celda [], celda ''3 4'']])
   \<and> parsear_ficha_incendio ficha_coord_sin_tbody = Inr [(''meteo_temperatura'', Str ''25'')]
   \<and> List.find
         (\<lambda>e. string_contains ''CONDICIONES METEOROLOGICAS Y TOPOGRAFICAS INICIALES'' [''td''] (snd e))
         (descendants_at (ficha onclick_ej cond_filas_ej))
       = Some ([0, 0, 1, 0, 0], celda ''CONDICIONES METEOROLOGICAS Y TOPOGRAFICAS INICIALES'')
   \<and> find_parent ''table'' (ficha onclick_ej cond_filas_ej) [0, 0, 1, 0, 0]
       = Some (Tag ''table'' [] cond_filas_ej)
   \<and> parsear_ficha_incendio (ficha onclick_ej cond_filas_ej) = Inr datos_coord_ej"
proof -
  let ?t = "Tag ''table'' []
                [Tag ''tr'' [] [celda ''Coordenadas operativas''],
                 Tag ''tr'' [] [celda ''Coordenadas UTM'', celda ''1 2'', celda [], celda ''3 4'']]"
  have a: "List.find (\<lambda>e. string_contains ''Coordenadas operativas'' [''td''] (snd e))
       (descendants_at ficha_coord_sin_tbody) = Some ([0, 0, 0], celda ''Coordenadas operativas'')"
    by (simp add: ficha_coord_sin_tbody_def dom_defs ejemplo_defs char_defs)
  have b: "find_parent ''table'' ficha_coord_sin_tbody [0, 0, 0] = Some ?t"
    by (simp add: ficha_coord_sin_tbody_def dom_defs ejemplo_defs)
  have c: "find_all [''tbody''] ?t = []"
    by (simp add: dom_defs ejemplo_defs)
  have d: "condiciones ficha_coord_sin_tbody [] = Inr [(''meteo_temperatura'', Str ''25'')]"
    by (simp add: condiciones_def mapeo_def ficha_coord_sin_tbody_def dom_defs ejemplo_defs char_defs)
  have a': "List.find
         (\<lambda>e. string_contains ''CONDICIONES METEOROLOGICAS Y TOPOGRAFICAS INICIALES'' [''td''] (snd e))
         (descendants_at (ficha onclick_ej cond_filas_ej))
       = Some ([0, 0, 1, 0, 0], celda ''CONDICIONES METEOROLOGICAS Y TOPOGRAFICAS INICIALES'')"
    by (simp add: dom_defs ejemplo_defs char_defs)
  have b': "find_parent ''table'' (ficha onclick_ej cond_filas_ej) [0, 0, 1, 0, 0]
       = Some (Tag ''table'' [] cond_filas_ej)"
    by (simp add: dom_defs ejemplo_defs)
  have c': "find_all [''tbody''] (Tag ''table'' [] cond_filas_ej) = []"
    by (simp add: dom_defs ejemplo_defs)
  from detail_table_without_tbody [of ficha_coord_sin_tbody "([0, 0, 0], celda ''Coordenadas operativas'')" ?t
      "[]" "ficha onclick_ej cond_filas_ej"
      "([0, 0, 1, 0, 0], celda ''CONDICIONES METEOROLOGICAS Y TOPOGRAFICAS INICIALES'')"
      "Tag ''table'' [] cond_filas_ej" "[]"]
    a b c d a' b' c' coordenadas_ej [of cond_filas_ej]
  show ?thesis by simp
qed

section \<open>The rows of the listing\<close>

lemma strptime_raises: "strptime s \<noteq> Inl AttributeError"
  by (simp add: strptime_def Let_def split: list.splits prod.splits)

lemma parse_fecha_total: "\<exists>r. parse_fecha s = Inr r"
  using strptime_raises [of s]
  by (auto simp: parse_fecha_def split: sum.splits exn.splits)

lemma fila_de_Inl: "fila_de tds = Inl e \<longleftrightarrow> superficie_de (get_text [] (tds ! 7)) = Inl e"
  using parse_fecha_total [of "get_text [] (tds ! 1)"]
  by (auto simp: fila_de_def split: sum.splits)

lemma fila_de_Inr:
  "superficie_de (get_text [] (tds ! 7)) = Inr a \<Longrightarrow> \<exists>f. fila_de tds = Inr f"
  using parse_fecha_total [of "get_text [] (tds ! 1)"]
  by (auto simp: fila_de_def split: sum.splits)

lemma py_float_raises: "py_float s = Inl e \<Longrightarrow> e = ValueError (FloatSyntax s)"
  by (auto simp: py_float_def float_from_string_inner_def Let_def split: if_splits option.splits prod.splits)

lemma superficie_de_raises: "superficie_de t = Inl e \<Longrightarrow> \<exists>s. e = ValueError (FloatSyntax s)"
  by (auto simp: superficie_de_def Let_def split: if_splits sum.splits dest: py_float_raises)

lemma filas_de_all:
  assumes "\<forall>tr\<in>set trs. 12 \<le> length (find_all [''td''] tr) \<longrightarrow>
             (\<exists>f. fila_de (find_all [''td''] tr) = Inr f)"
  shows "\<exists>fs. filas_de trs filas = Inr (filas @ fs)
           \<and> map Inr fs = map (\<lambda>tr. fila_de (find_all [''td''] tr))
                            (filter (\<lambda>tr. 12 \<le> length (find_all [''td''] tr)) trs)"
  using assms
proof (induction trs arbitrary: filas)
  case Nil
  then show ?case by simp
next
  case (Cons tr trs)
  show ?case
  proof (cases "length (find_all [''td''] tr) < 12")
    case True
    with Cons.IH [of filas] Cons.prems show ?thesis by (simp add: Let_def)
  next
    case False
    with Cons.prems obtain f where f: "fila_de (find_all [''td''] tr) = Inr f" by auto
    from Cons.IH [of "filas @ [f]"] Cons.prems obtain fs where
      "filas_de trs (filas @ [f]) = Inr ((filas @ [f]) @ fs)"
      "map Inr fs = map (\<lambda>tr. fila_de (find_all [''td''] tr))
                            (filter (\<lambda>tr. 12 \<le> length (find_all [''td''] tr)) trs)"
      by auto
    with False f show ?thesis by (intro exI [of _ "f # fs"]) (simp add: Let_def)
  qed
qed

lemma filas_de_some_Inl:
  assumes "tr \<in> set trs" and "12 \<le> length (find_all [''td''] tr)"
    and "fila_de (find_all [''td''] tr) = Inl e"
  shows "\<exists>e' tr'. filas_de trs filas = Inl e' \<and> fila_de (find_all [''td''] tr') = Inl e'"
  using assms
proof (induction trs arbitrary: filas)
  case Nil
  then show ?case by simp
next
  case (Cons x trs)
  show ?case
  proof (cases "length (find_all [''td''] x) < 12")
    case True
    with Cons have "tr \<in> set trs" by auto
    from Cons.IH [OF this Cons.prems(2,3), of filas] True show ?thesis by (simp add: Let_def)
  next
    case False
    show ?thesis
    proof (cases "fila_de (find_all [''td''] x)")
      case (Inl e')
      with False show ?thesis by (auto simp: Let_def)
    next
      case (Inr f)
      with Cons.prems have "tr \<in> set trs" by auto
      from Cons.IH [OF this Cons.prems(2,3), of "filas @ [f]"] False Inr
      show ?thesis by (simp add: Let_def)
    qed
  qed
qed

lemma buscar_tbody_listado:
  "buscar_tbody (listado titulo_vigentes [Tag ''tbody'' [] filas]) = Inr (Tag ''tbody'' [] filas)"
  by (simp add: buscar_tbody_def tiene_encabezados_def es_tabla_def dom_defs listado_def
      titulo_vigentes_def char_defs)

lemma find_all_tr_fila12: "find_all [''tr''] (Tag ''tbody'' [] [fila12 f a]) = [fila12 f a]"
  by (simp add: dom_defs ejemplo_defs)

lemma find_all_tr_cuerpo_ej:
  "find_all [''tr''] cuerpo_ej = [fila12 fecha_ej ''1.234,5'', fila3, fila12 fecha_ej ''0,75'']"
  by (simp add: cuerpo_ej_def dom_defs ejemplo_defs)

lemma find_all_td_fila3: "length (find_all [''td''] fila3) = 3"
  by (simp add: dom_defs ejemplo_defs)

lemma get_text_area: "get_text [] (find_all [''td''] (fila12 f a) ! 7) = strip a"
  by (simp add: dom_defs ejemplo_defs)

lemma fila_de_fila12:
  "superficie_de (strip a) = Inr x \<Longrightarrow>
   fila_de (find_all [''td''] (fila12 fecha_ej a)) = Inr (fila_ej\<lparr>superficie_ha := x\<rparr>)"
  by (simp add: fila_de_def get_text_area)
     (simp add: dom_defs ejemplo_defs listado_defs fecha_ej_def parse_fecha_ej char_defs fila_ej_def)

text \<open>
  C3, as the specification has it (one record per row of at least 12 cells, for every
  table body), fails on a body whose only row has 12 cells and the area \<open>s/i\<close>: the call
  raises and gives no record.
\<close>

theorem one_record_per_row_counterexample:
  "buscar_tbody (listado titulo_vigentes [cuerpo_si]) = Inr cuerpo_si
   \<and> length (filter (\<lambda>tr. 12 \<le> length (find_all [''td''] tr)) (find_all [''tr''] cuerpo_si)) = 1
   \<and> parsear_tabla_incendios (listado titulo_vigentes [cuerpo_si])
       = Inl (ValueError (FloatSyntax ''s/i''))"
proof -
  have a: "buscar_tbody (listado titulo_vigentes [cuerpo_si]) = Inr cuerpo_si"
    by (simp add: cuerpo_si_def buscar_tbody_listado)
  have b: "find_all [''tr''] cuerpo_si = [fila12 fecha_ej ''s/i'']"
    by (simp add: cuerpo_si_def find_all_tr_fila12)
  have c: "superficie_de (strip ''s/i'') = Inl (ValueError (FloatSyntax ''s/i''))"
    by (simp add: superficie_de_def replace1_def float_defs char_defs)
  have d: "fila_de (find_all [''td''] (fila12 fecha_ej ''s/i'')) = Inl (ValueError (FloatSyntax ''s/i''))"
    by (simp add: fila_de_Inl get_text_area c)
  show ?thesis
    by (simp add: a b parsear_tabla_incendios_def cells12 d)
qed

text \<open>
  C3, amended. When the table body is found and the area of every row of at least 12
  cells converts (or is empty), \<open>parsear_tabla_incendios\<close> returns the records of exactly
  those rows, one each, in the order of the document; the rows of fewer than 12 cells
  leave nothing.
\<close>

theorem one_record_per_row:
  assumes "buscar_tbody soup = Inr tbody"
    and "\<forall>tr\<in>set (find_all [''tr''] tbody).
           12 \<le> length (find_all [''td''] tr) \<longrightarrow>
           (\<exists>a. superficie_de (get_text [] (find_all [''td''] tr ! 7)) = Inr a)"
  shows "\<exists>filas. parsear_tabla_incendios soup = Inr filas
           \<and> map Inr filas = map (\<lambda>tr. fila_de (find_all [''td''] tr))
                 (filter (\<lambda>tr. 12 \<le> length (find_all [''td''] tr)) (find_all [''tr''] tbody))"
proof -
  have "\<forall>tr\<in>set (find_all [''tr''] tbody). 12 \<le> length (find_all [''td''] tr) \<longrightarrow>
             (\<exists>f. fila_de (find_all [''td''] tr) = Inr f)"
    using assms(2) fila_de_Inr by blast
  from filas_de_all [OF this, of "[]"] assms(1) show ?thesis
    by (simp add: parsear_tabla_incendios_def)
qed

theorem one_record_per_row_witness:
  "buscar_tbody (listado titulo_vigentes [cuerpo_ej]) = Inr cuerpo_ej
   \<and> length (find_all [''tr''] cuerpo_ej) = 3
   \<and> parsear_tabla_incendios (listado titulo_vigentes [cuerpo_ej])
       = Inr [fila_ej, fila_ej\<lparr>superficie_ha := Some (Fin (3 / 4))\<rparr>]"
proof -
  have a: "buscar_tbody (listado titulo_vigentes [cuerpo_ej]) = Inr cuerpo_ej"
    by (simp add: cuerpo_ej_def buscar_tbody_listado)
  have s1: "superficie_de (strip ''1.234,5'') = Inr (Some (Fin (2469 / 2)))"
    by (simp add: superficie_de_def replace1_def py_float_1234 char_defs)
  have s2: "superficie_de (strip ''0,75'') = Inr (Some (Fin (3 / 4)))"
    by (simp add: superficie_de_def replace1_def py_float_075 char_defs)
  have f1: "fila_de (find_all [''td''] (fila12 fecha_ej ''1.234,5'')) = Inr fila_ej"
    using fila_de_fila12 [OF s1] by (simp add: fila_ej_def)
  note f2 = fila_de_fila12 [OF s2]
  have b: "\<forall>tr\<in>set (find_all [''tr''] cuerpo_ej).
           12 \<le> length (find_all [''td''] tr) \<longrightarrow>
           (\<exists>a. superficie_de (get_text [] (find_all [''td''] tr ! 7)) = Inr a)"
    by (simp add: find_all_tr_cuerpo_ej find_all_td_fila3 get_text_area s1 s2)
  from one_record_per_row [OF a b] obtain filas where
    r: "parsear_tabla_incendios (listado titulo_vigentes [cuerpo_ej]) = Inr filas"
    and m: "map Inr filas = map (\<lambda>tr. fila_de (find_all [''td''] tr))
                 (filter (\<lambda>tr. 12 \<le> length (find_all [''td''] tr)) (find_all [''tr''] cuerpo_ej))"
    by blast
  from m have "map Inr filas = [Inr fila_ej, Inr (fila_ej\<lparr>superficie_ha := Some (Fin (3 / 4))\<rparr>) :: exn + fila]"
    by (simp add: find_all_tr_cuerpo_ej find_all_td_fila3 cells12 f1 f2)
  then have "filas = [fila_ej, fila_ej\<lparr>superficie_ha := Some (Fin (3 / 4))\<rparr>]"
    by (auto simp: map_eq_Cons_conv)
  with r a show ?thesis by (simp add: find_all_tr_cuerpo_ej)
qed

text \<open>
  C9, as stated (the text of the area cell is not empty and, once the points are removed
  and the comma replaced, is not a number), fails on the area \<open>.\<close>: the text left is empty,
  which \<open>float\<close> would refuse, but line 145 does not convert an empty text; the row gets no
  area and the call returns its record.
\<close>

theorem malformed_area_counterexample:
  "find_all [''tr''] cuerpo_punto = [fila12 fecha_ej ''.'']
   \<and> length (find_all [''td''] (fila12 fecha_ej ''.'')) = 12
   \<and> get_text [] (find_all [''td''] (fila12 fecha_ej ''.'') ! 7) = ''.''
   \<and> py_float (replace1 CHR '','' ''.'' (replace1 CHR ''.'' [] ''.'')) = Inl (ValueError (FloatSyntax []))
   \<and> parsear_tabla_incendios (listado titulo_vigentes [cuerpo_punto])
       = Inr [fila_ej\<lparr>superficie_ha := None\<rparr>]"
proof -
  have a: "buscar_tbody (listado titulo_vigentes [cuerpo_punto]) = Inr cuerpo_punto"
    by (simp add: cuerpo_punto_def buscar_tbody_listado)
  have b: "find_all [''tr''] cuerpo_punto = [fila12 fecha_ej ''.'']"
    by (simp add: cuerpo_punto_def find_all_tr_fila12)
  have s: "strip ''.'' = ''.''"
    by (simp add: char_defs)
  have c: "superficie_de (strip ''.'') = Inr None"
    by (simp add: superficie_de_def replace1_def char_defs)
  have d: "py_float (replace1 CHR '','' ''.'' (replace1 CHR ''.'' [] ''.'')) = Inl (ValueError (FloatSyntax []))"
    by (simp add: replace1_def float_defs char_defs)
  show ?thesis
    by (simp add: a b parsear_tabla_incendios_def cells12 fila_de_fila12 [OF c] get_text_area s d)
qed

text \<open>
  C9, amended. When the table body is found and some row of at least 12 cells has an area
  text that, once the points are removed and the comma is replaced by a point, is not
  empty and is refused by \<open>float\<close>, \<open>parsear_tabla_incendios\<close> raises the \<open>ValueError\<close> of
  a \<open>float\<close> and returns no record at all.
\<close>

theorem malformed_area_aborts:
  assumes "buscar_tbody soup = Inr tbody"
    and "tr \<in> set (find_all [''tr''] tbody)"
    and "12 \<le> length (find_all [''td''] tr)"
    and "superficie_txt = replace1 CHR '','' ''.''
           (replace1 CHR ''.'' [] (get_text [] (find_all [''td''] tr ! 7)))"
    and "superficie_txt \<noteq> []"
    and "py_float superficie_txt = Inl e"
  shows "\<exists>s. parsear_tabla_incendios soup = Inl (ValueError (FloatSyntax s))"
proof -
  have "superficie_de (get_text [] (find_all [''td''] tr ! 7)) = Inl e"
    using assms(4-6) by (simp add: superficie_de_def)
  then have "fila_de (find_all [''td''] tr) = Inl e"
    by (simp add: fila_de_Inl)
  from filas_de_some_Inl [OF assms(2,3) this, of "[]"] obtain e' tr' where
    r: "filas_de (find_all [''tr''] tbody) [] = Inl e'"
    and "fila_de (find_all [''td''] tr') = Inl e'"
    by blast
  then have "superficie_de (get_text [] (find_all [''td''] tr' ! 7)) = Inl e'"
    by (simp add: fila_de_Inl)
  then obtain s where "e' = ValueError (FloatSyntax s)"
    using superficie_de_raises by blast
  with r assms(1) show ?thesis
    by (simp add: parsear_tabla_incendios_def)
qed

theorem malformed_area_aborts_witness:
  "buscar_tbody (listado titulo_vigentes [cuerpo_si]) = Inr cuerpo_si
   \<and> fila12 fecha_ej ''s/i'' \<in> set (find_all [''tr''] cuerpo_si)
   \<and> 12 \<le> length (find_all [''td''] (fila12 fecha_ej ''s/i''))
   \<and> replace1 CHR '','' ''.''
        (replace1 CHR ''.'' [] (get_text [] (find_all [''td''] (fila12 fecha_ej ''s/i'') ! 7))) = ''s/i''
   \<and> py_float ''s/i'' = Inl (ValueError (FloatSyntax ''s/i''))
   \<and> (case parsear_tabla_incendios (listado titulo_vigentes [cuerpo_si]) of
         Inl (ValueError (FloatSyntax s)) \<Rightarrow> True | _ \<Rightarrow> False)"
proof -
  have a: "buscar_tbody (listado titulo_vigentes [cuerpo_si]) = Inr cuerpo_si"
    by (simp add: cuerpo_si_def buscar_tbody_listado)
  have b: "fila12 fecha_ej ''s/i'' \<in> set (find_all [''tr''] cuerpo_si)"
    by (simp add: cuerpo_si_def find_all_tr_fila12)
  have c: "12 \<le> length (find_all [''td''] (fila12 fecha_ej ''s/i''))"
    by (simp add: cells12)
  have d: "''s/i'' = replace1 CHR '','' ''.''
        (replace1 CHR ''.'' [] (get_text [] (find_all [''td''] (fila12 fecha_ej ''s/i'') ! 7)))"
    by (simp add: get_text_area replace1_def char_defs)
  have e: "''s/i'' \<noteq> []" by simp
  have f: "py_float ''s/i'' = Inl (ValueError (FloatSyntax ''s/i''))"
    by (simp add: float_defs char_defs)
  from malformed_area_aborts [OF a b c d e f] a b c d f show ?thesis
    by auto
qed

section \<open>The date of a row\<close>

lemma alt1_D: "(x, r) \<in> set (alt1 p s) \<Longrightarrow> \<exists>a. x = [a] \<and> s = x @ r \<and> p a"
  by (auto simp: alt1_def split: list.splits if_splits)

lemma alt2_D:
  "(x, r) \<in> set (alt2 p q s) \<Longrightarrow> \<exists>a b. x = [a, b] \<and> s = x @ r \<and> p a \<and> q b"
  by (auto simp: alt2_def split: list.splits if_splits)

lemma re_d_D:
  assumes "(d, r) \<in> set (re_d s)"
  shows "s = d @ r \<and> (digits12 d \<or> (\<exists>c. d = [CHR '' '', c] \<and> isdigit c))"
proof -
  from assms consider
      "(d, r) \<in> set (alt2 (one_of ''3'') (one_of ''01'') s)"
    | "(d, r) \<in> set (alt2 (one_of ''12'') isdigit s)"
    | "(d, r) \<in> set (alt2 (one_of ''0'') (one_of ''123456789'') s)"
    | "(d, r) \<in> set (alt1 (one_of ''123456789'') s)"
    | "(d, r) \<in> set (alt2 (one_of '' '') (one_of ''123456789'') s)"
    by (auto simp: re_d_def)
  then show ?thesis
  proof cases
    case 1
    then obtain a b where "d = [a, b]" "s = d @ r" "one_of ''3'' a" "one_of ''01'' b"
      using alt2_D by blast
    then show ?thesis by (auto simp: digits12_def one_of_def isdigit_def)
  next
    case 2
    then obtain a b where "d = [a, b]" "s = d @ r" "one_of ''12'' a" "isdigit b"
      using alt2_D by blast
    then show ?thesis by (auto simp: digits12_def one_of_def isdigit_def)
  next
    case 3
    then obtain a b where "d = [a, b]" "s = d @ r" "one_of ''0'' a" "one_of ''123456789'' b"
      using alt2_D by blast
    then show ?thesis by (auto simp: digits12_def one_of_def isdigit_def)
  next
    case 4
    then obtain a where "d = [a]" "s = d @ r" "one_of ''123456789'' a"
      using alt1_D by blast
    then show ?thesis by (auto simp: digits12_def one_of_def isdigit_def)
  next
    case 5
    then obtain a b where "d = [a, b]" "s = d @ r" "one_of '' '' a" "one_of ''123456789'' b"
      using alt2_D by blast
    then show ?thesis by (auto simp: one_of_def isdigit_def)
  qed
qed

lemma lit_D: "r \<in> set (lit c s) \<Longrightarrow> s = c # r"
  by (auto simp: lit_def split: list.splits if_splits)

lemma re_b_D: "(b, r) \<in> set (re_b s) \<Longrightarrow> s = b @ r \<and> map lower b \<in> set (tl a_month)"
  by (auto simp: re_b_def split: if_splits)

lemma re_Y_D: "(y, r) \<in> set (re_Y s) \<Longrightarrow> s = y @ r \<and> length y = 4 \<and> list_all isdigit y"
  by (auto simp: re_Y_def split: list.splits if_splits)

lemma take_takeWhile: "k \<le> length (takeWhile P s) \<Longrightarrow> list_all P (take k s)"
proof (induction s arbitrary: k)
  case Nil
  then show ?case by simp
next
  case (Cons a s)
  then show ?case by (cases k) (auto split: if_splits)
qed

lemma re_ws_D:
  assumes "r \<in> set (re_ws s)"
  shows "\<exists>w. s = w @ r \<and> w \<noteq> [] \<and> list_all isspace w"
proof -
  from assms obtain k where k: "1 \<le> k" "k \<le> length (takeWhile isspace s)" and r: "r = drop k s"
    by (auto simp: re_ws_def)
  have "list_all isspace (take k s)"
    using k(2) by (rule take_takeWhile)
  moreover have "length (takeWhile isspace s) \<le> length s"
    by (rule length_takeWhile_le)
  then have "take k s \<noteq> []"
    using k by auto
  ultimately show ?thesis
    using r by (intro exI [of _ "take k s"]) simp
qed

lemma re_H_D:
  assumes "(h, r) \<in> set (re_H s)"
  shows "s = h @ r \<and> digits12 h"
proof -
  from assms consider
      "(h, r) \<in> set (alt2 (one_of ''2'') (one_of ''0123'') s)"
    | "(h, r) \<in> set (alt2 (one_of ''01'') isdigit s)"
    | "(h, r) \<in> set (alt1 isdigit s)"
    by (auto simp: re_H_def)
  then show ?thesis
  proof cases
    case 1
    then obtain a b where "h = [a, b]" "s = h @ r" "one_of ''2'' a" "one_of ''0123'' b"
      using alt2_D by blast
    then show ?thesis by (auto simp: digits12_def one_of_def isdigit_def)
  next
    case 2
    then obtain a b where "h = [a, b]" "s = h @ r" "one_of ''01'' a" "isdigit b"
      using alt2_D by blast
    then show ?thesis by (auto simp: digits12_def one_of_def isdigit_def)
  next
    case 3
    then obtain a where "h = [a]" "s = h @ r" "isdigit a"
      using alt1_D by blast
    then show ?thesis by (simp add: digits12_def)
  qed
qed

lemma re_M_D:
  assumes "(m, r) \<in> set (re_M s)"
  shows "s = m @ r \<and> digits12 m"
proof -
  from assms consider
      "(m, r) \<in> set (alt2 (one_of ''012345'') isdigit s)"
    | "(m, r) \<in> set (alt1 isdigit s)"
    by (auto simp: re_M_def)
  then show ?thesis
  proof cases
    case 1
    then obtain a b where "m = [a, b]" "s = m @ r" "one_of ''012345'' a" "isdigit b"
      using alt2_D by blast
    then show ?thesis by (auto simp: digits12_def one_of_def isdigit_def)
  next
    case 2
    then obtain a where "m = [a]" "s = m @ r" "isdigit a"
      using alt1_D by blast
    then show ?thesis by (simp add: digits12_def)
  qed
qed

lemma format_regex_match_D:
  assumes "(d, b, y, h, m, []) \<in> set (format_regex_match s)"
  shows "fecha_format s"
proof -
  from assms obtain r1 r2 r3 r4 r5 r6 r7 r8 where
    d: "(d, r1) \<in> set (re_d s)" and l1: "r2 \<in> set (lit CHR ''-'' r1)"
    and b: "(b, r3) \<in> set (re_b r2)" and l2: "r4 \<in> set (lit CHR ''-'' r3)"
    and y: "(y, r5) \<in> set (re_Y r4)" and w: "r6 \<in> set (re_ws r5)"
    and h: "(h, r7) \<in> set (re_H r6)" and l3: "r8 \<in> set (lit CHR '':'' r7)"
    and m: "(m, []) \<in> set (re_M r8)"
    unfolding format_regex_match_def by auto
  from w obtain ws where ws: "r5 = ws @ r6" "ws \<noteq> []" "list_all isspace ws"
    using re_ws_D by blast
  have "s = d @ ''-'' @ b @ ''-'' @ y @ ws @ h @ '':'' @ m"
    using re_d_D [OF d] lit_D [OF l1] re_b_D [OF b] lit_D [OF l2] re_Y_D [OF y] ws(1)
      re_H_D [OF h] lit_D [OF l3] re_M_D [OF m]
    by simp
  then show ?thesis
    unfolding fecha_format_def
    using re_d_D [OF d] re_b_D [OF b] re_Y_D [OF y] ws(2,3) re_H_D [OF h] re_M_D [OF m]
    by blast
qed

lemma strptime_format: "strptime s = Inr dt \<Longrightarrow> fecha_format s"
proof -
  assume a: "strptime s = Inr dt"
  then obtain d b y h m rest where "format_regex_match s = (d, b, y, h, m, []) # rest"
    by (auto simp: strptime_def Let_def split: list.splits prod.splits if_splits)
  then have "(d, b, y, h, m, []) \<in> set (format_regex_match s)"
    by simp
  then show ?thesis by (rule format_regex_match_D)
qed

lemma parse_fecha_no_format: "\<not> fecha_format s \<Longrightarrow> parse_fecha s = Inr None"
  using strptime_format [of s] strptime_raises [of s]
  by (auto simp: parse_fecha_def split: sum.splits exn.splits)

lemma fecha_format_dash: "fecha_format s \<Longrightarrow> CHR ''-'' \<in> set s"
  by (auto simp: fecha_format_def)

lemma parse_fecha_garbage: "parse_fecha ''garbage'' = Inr None"
  by (simp add: strptime_defs char_defs)

lemma fila_de_fecha: "fila_de tds = Inr f \<Longrightarrow> parse_fecha (get_text [] (tds ! 1)) = Inr (fecha f)"
  by (auto simp: fila_de_def split: sum.splits)

text \<open>
  C5. The date of a row never raises: every text gives a date or none. The text
  \<open>16-nov-2025 18:36\<close> gives 16 November 2025 at 18:36, the text \<open>garbage\<close> gives none, and
  so does every text that is not of the format day-month abbreviation-year hour:minute.
  The record of a row carries that result.
\<close>

theorem date_parsing:
  "(\<exists>r. parse_fecha s = Inr r)
   \<and> parse_fecha ''16-nov-2025 18:36''
       = Inr (Some \<lparr>year = 2025, month = 11, day = 16, hour = 18, minute = 36,
                     second = 0, microsecond = 0\<rparr>)
   \<and> parse_fecha ''garbage'' = Inr None
   \<and> (\<not> fecha_format s' \<longrightarrow> parse_fecha s' = Inr None)
   \<and> (fila_de tds = Inr f \<longrightarrow> parse_fecha (get_text [] (tds ! 1)) = Inr (fecha f))"
  using parse_fecha_total [of s] parse_fecha_ej parse_fecha_garbage parse_fecha_no_format [of s']
    fila_de_fecha [of tds f]
  by blast

theorem date_parsing_witness:
  "\<not> fecha_format ''18:36 16/11/2025''
   \<and> parse_fecha ''18:36 16/11/2025'' = Inr None
   \<and> fila_de (find_all [''td''] (fila12 fecha_ej ''1.234,5'')) = Inr fila_ej
   \<and> parse_fecha (get_text [] (find_all [''td''] (fila12 fecha_ej ''1.234,5'') ! 1)) = Inr (fecha fila_ej)"
proof -
  have a: "\<not> fecha_format ''18:36 16/11/2025''"
    using fecha_format_dash [of "''18:36 16/11/2025''"] by auto
  have b: "fila_de (find_all [''td''] (fila12 fecha_ej ''1.234,5'')) = Inr fila_ej"
    using fila_de_ej by (simp add: fecha_ej_def)
  from date_parsing [of "[]" "''18:36 16/11/2025''" "find_all [''td''] (fila12 fecha_ej ''1.234,5'')" fila_ej]
    a b
  show ?thesis by simp
qed

lemma fecha_format_ej: "fecha_format ''16-nov-2025 18:36''"
proof -
  have "''16-nov-2025 18:36'' = ''16'' @ ''-'' @ ''nov'' @ ''-'' @ ''2025'' @ '' '' @ ''18'' @ '':'' @ ''36''"
    by simp
  moreover have "digits12 ''16''" "digits12 ''18''" "digits12 ''36''"
    by (simp_all add: digits12_def isdigit_def)
  moreover have "map lower ''nov'' \<in> set (tl a_month)"
    by (simp add: a_month_def lower_def)
  moreover have "length ''2025'' = 4" "list_all isdigit ''2025''"
    by (simp_all add: isdigit_def)
  moreover have "'' '' \<noteq> []" "list_all isspace '' ''"
    by (simp_all add: isspace_def)
  ultimately show ?thesis
    unfolding fecha_format_def by blast
qed

section \<open>The coordinates of a link\<close>

lemma latlon_onclick_no_match: "re_search s = None \<Longrightarrow> latlon_onclick s = Inr (None, None)"
  by (simp add: latlon_onclick_def)

lemma latlon_onclick_match:
  "re_search s = Some (g1, g2) \<Longrightarrow> py_float g1 = Inr lat \<Longrightarrow> py_float g2 = Inr lon
   \<Longrightarrow> latlon_onclick s = Inr (Some lat, Some lon)"
  by (simp add: latlon_onclick_def)

lemma latlon_onclick_raises:
  "latlon_onclick s = Inl e \<Longrightarrow>
     \<exists>g1 g2. re_search s = Some (g1, g2) \<and> (py_float g1 = Inl e \<or> py_float g2 = Inl e)"
  by (auto simp: latlon_onclick_def split: option.splits sum.splits)

lemma re_search_malo: "re_search onclick_malo = Some (''-'', ''-'')"
  by (simp add: onclick_malo_def match_linkMapa_def is_numchar_def char_defs Let_def)

lemma py_float_dash: "py_float ''-'' = Inl (ValueError (FloatSyntax ''-''))"
  by (simp add: float_defs char_defs)

lemma latlon_onclick_malo: "latlon_onclick onclick_malo = Inl (ValueError (FloatSyntax ''-''))"
  by (simp add: latlon_onclick_def re_search_malo py_float_dash)

text \<open>
  C1. The claim (the extraction of the coordinates never raises) fails in the code. The
  class \<open>[\-0-9\.]\<close> of the pattern admits texts that are not numbers: the onclick text
  \<open>linkMapa(this, -, -)\<close> matches with both groups \<open>-\<close>, \<open>float\<close> raises
  \<open>ValueError\<close> on the first, nothing catches it, and \<open>parsear_ficha_incendio\<close> raises
  on the page that carries the link.
\<close>

theorem coordinate_extraction_raises:
  "re_search onclick_malo = Some (''-'', ''-'')
   \<and> latlon_onclick onclick_malo = Inl (ValueError (FloatSyntax ''-''))
   \<and> parsear_ficha_incendio (ficha onclick_malo []) = Inl (ValueError (FloatSyntax ''-''))"
proof -
  have "coordenadas (ficha onclick_malo []) [] = Inl (ValueError (FloatSyntax ''-''))"
    by (simp add: coordenadas_def coord_fila_def latlon_celda_def latlon_onclick_malo
        dom_defs ejemplo_defs char_defs)
  then show ?thesis
    by (simp add: re_search_malo latlon_onclick_malo parsear_ficha_incendio_def)
qed

section \<open>The area of a row\<close>

text \<open>
  A number of \<open>2 ^ 1024\<close> or more converts to the infinity, as the text \<open>1e999\<close> does.
\<close>

lemma bit_length_bounds: "n \<noteq> 0 \<Longrightarrow> 2 ^ (bit_length n - 1) \<le> n \<and> n < 2 ^ bit_length n"
proof (induction n rule: bit_length.induct)
  case (1 n)
  show ?case
  proof (cases "n div 2 = 0")
    case True
    with 1 have "n = 1" by (simp add: div_eq_0_iff)
    then show ?thesis by (simp add: bit_length.simps)
  next
    case False
    with 1 have ih: "2 ^ (bit_length (n div 2) - 1) \<le> n div 2" "n div 2 < 2 ^ bit_length (n div 2)"
      by simp_all
    have pos: "0 < bit_length (n div 2)"
      using False by (subst bit_length.simps) simp
    have b: "bit_length n = Suc (bit_length (n div 2))"
      using 1 by (subst bit_length.simps) simp
    have dm: "n = 2 * (n div 2) + n mod 2" "n mod 2 < 2"
      by simp_all
    have "(2::nat) ^ bit_length (n div 2) = 2 * 2 ^ (bit_length (n div 2) - 1)"
      using pos by (cases "bit_length (n div 2)") simp_all
    then have lo: "2 ^ bit_length (n div 2) \<le> n"
      using ih(1) dm by linarith
    have hi: "n < 2 * 2 ^ bit_length (n div 2)"
      using ih(2) dm by linarith
    show ?thesis using lo hi by (simp add: b)
  qed
qed

lemma binary64_overflow:
  assumes den: "0 < den" and big: "2 ^ 1024 * den \<le> num"
  shows "binary64 neg num den = Infinite neg"
proof -
  have num: "num \<noteq> 0" using den big by (cases "num = 0") simp_all
  have dn: "den \<noteq> 0" using den by simp
  let ?e0 = "int (bit_length num) - int (bit_length den)"
  have "2 ^ 1024 * 2 ^ (bit_length den - 1) \<le> 2 ^ 1024 * den"
    using bit_length_bounds [OF dn] by simp
  also have "\<dots> \<le> num" by (rule big)
  also have "num < 2 ^ bit_length num" using bit_length_bounds [OF num] by simp
  finally have "(2::nat) ^ (1024 + (bit_length den - 1)) < 2 ^ bit_length num"
    by (simp add: power_add)
  then have "1024 + (bit_length den - 1) < bit_length num"
    by (simp add: power_strict_increasing_iff)
  moreover have "0 < bit_length den"
    using dn by (subst bit_length.simps) simp
  ultimately have e0: "1024 \<le> ?e0" by linarith
  have e: "1023 < (if scaled_le den ?e0 num then ?e0 else ?e0 - 1)"
  proof (cases "?e0 = 1024")
    case True
    then have "scaled_le den ?e0 num"
      using big by (simp add: scaled_le_def mult.commute)
    then show ?thesis using e0 by simp
  next
    case False
    then show ?thesis using e0 by simp
  qed
  show ?thesis
    using num e by (simp add: binary64_def Let_def)
qed

lemma py_float_1e999: "py_float ''1e999'' = Inr (Infinite False)"
  by (simp add: float_defs char_defs) (rule binary64_overflow, simp_all)

text \<open>
  A text of digits, with or without a point and more digits, converts to the binary64 value
  of the number it writes.
\<close>

lemma not_too_many_digits: "length ip + length fp \<le> MAX_DIGITS \<Longrightarrow> \<not> too_many_digits ip fp"
proof -
  assume len: "length ip + length fp \<le> MAX_DIGITS"
  have "length (dropWhile (\<lambda>c. c = CHR ''0'') ip) \<le> length ip"
       "length (dropWhile (\<lambda>c. c = CHR ''0'') fp) \<le> length fp"
    by (rule length_dropWhile_le)+
  with len show ?thesis
    unfolding too_many_digits_def Let_def by (auto simp del: dropWhile_eq_Nil_conv)
qed

lemma decimal_value_frac: "decimal_value False m (0 - int n) = binary64 False m (10 ^ n)"
  by (cases "n = 0") (simp_all add: decimal_value_def)

lemma dg_strtod_int:
  assumes ip: "\<forall>c\<in>set ip. isdigit c" and ne: "ip \<noteq> []" and len: "length ip \<le> MAX_DIGITS"
  shows "dg_strtod ip = Some (binary64 False (nat_of_digits ip) 1, [])"
proof -
  obtain a ip' where ipc: "ip = a # ip'" using ne by (cases ip) auto
  have a: "isdigit a" using ip ipc by simp
  have sign: "skip_sign ip = (False, ip)"
    using isdigit_chars [OF a] ipc by (simp add: skip_sign_def)
  have lim: "\<not> too_many_digits ip []"
    using len by (intro not_too_many_digits) simp
  show ?thesis
    using ne lim decimal_value_frac [of "nat_of_digits ip" 0]
    by (simp add: dg_strtod_def sign takeWhile_all [OF ip] dropWhile_all [OF ip]
        parse_exponent_def)
qed

lemma dg_strtod_point:
  assumes ip: "\<forall>c\<in>set ip. isdigit c" and fp: "\<forall>c\<in>set fp. isdigit c" and ne: "ip \<noteq> []"
    and len: "length ip + length fp \<le> MAX_DIGITS"
  shows "dg_strtod (ip @ CHR ''.'' # fp)
           = Some (binary64 False (nat_of_digits (ip @ fp)) (10 ^ length fp), [])"
proof -
  obtain a ip' where ipc: "ip = a # ip'" using ne by (cases ip) auto
  have a: "isdigit a" using ip ipc by simp
  have sign: "skip_sign (ip @ CHR ''.'' # fp) = (False, ip @ CHR ''.'' # fp)"
    using isdigit_chars [OF a] ipc by (simp add: skip_sign_def)
  have nd: "\<not> isdigit CHR ''.''" by (simp add: isdigit_def)
  note lim = not_too_many_digits [OF len]
  show ?thesis
    using ne lim decimal_value_frac [of "nat_of_digits (ip @ fp)" "length fp"]
    by (simp add: dg_strtod_def sign takeWhile_digits [OF ip nd] dropWhile_digits [OF ip nd]
        takeWhile_all [OF fp] dropWhile_all [OF fp] parse_exponent_def)
qed

lemma float_inner_whole:
  assumes "t \<noteq> []" and "\<not> isspace_float (hd t)" and "\<not> isspace_float (last t)"
    and "dg_strtod t = Some (x, [])"
  shows "float_from_string_inner t t = Inr x"
proof -
  have lead: "lstrip isspace_float t = t"
    using assms(1,2) by (cases t) (simp_all add: lstrip_def)
  have trail: "rstrip isspace_float t = t"
    using assms(1,3) by (intro rstrip_id)
  show ?thesis
    unfolding float_from_string_inner_def lead Let_def trail string_to_double_def assms(4)
    using assms(1) by simp
qed

lemma py_float_int:
  assumes ip: "\<forall>c\<in>set ip. isdigit c" and ne: "ip \<noteq> []" and len: "length ip \<le> MAX_DIGITS"
  shows "py_float ip = Inr (binary64 False (nat_of_digits ip) 1)"
proof -
  have h: "\<not> isspace_float (hd ip)" and l: "\<not> isspace_float (last ip)"
    using ip ne isdigit_not_space by simp_all
  have nounder: "CHR ''_'' \<notin> set ip" using ip isdigit_chars by blast
  from float_inner_whole [OF ne h l dg_strtod_int [OF ip ne len]] nounder
  show ?thesis unfolding py_float_def by simp
qed

lemma py_float_point:
  assumes ip: "\<forall>c\<in>set ip. isdigit c" and fp: "\<forall>c\<in>set fp. isdigit c" and ne: "ip \<noteq> []"
    and len: "length ip + length fp \<le> MAX_DIGITS"
  shows "py_float (ip @ CHR ''.'' # fp)
           = Inr (binary64 False (nat_of_digits (ip @ fp)) (10 ^ length fp))"
proof -
  let ?t = "ip @ CHR ''.'' # fp"
  have tne: "?t \<noteq> []" by simp
  have h: "\<not> isspace_float (hd ?t)"
    using ip ne isdigit_not_space by (cases ip) simp_all
  have l: "\<not> isspace_float (last ?t)"
  proof (cases fp rule: rev_cases)
    case Nil then show ?thesis by (simp add: isspace_float_def)
  next
    case (snoc xs x) then show ?thesis using fp isdigit_not_space by simp
  qed
  have "\<forall>c\<in>set ip \<union> set fp. c \<noteq> CHR ''_''"
    using ip fp isdigit_chars by blast
  then have nounder: "CHR ''_'' \<notin> set ?t" by auto
  from float_inner_whole [OF tne h l dg_strtod_point [OF ip fp ne len]] nounder
  show ?thesis unfolding py_float_def by simp
qed

text \<open>
  The text of the area cell: the points are dropped wherever they stand, the comma becomes
  the point, and what is left goes to \<open>float\<close>.
\<close>

lemma superficie_de_comma:
  assumes ip: "list_all isdigit ip" and fp: "list_all isdigit fp" and ne: "ip \<noteq> []"
    and len: "length ip + length fp \<le> MAX_DIGITS"
    and flt: "filter (\<lambda>c. c \<noteq> CHR ''.'') area = ip @ CHR '','' # fp"
  shows "superficie_de area
           = Inr (Some (binary64 False (nat_of_digits (ip @ fp)) (10 ^ length fp)))"
proof -
  have ip': "\<forall>c\<in>set ip. isdigit c" and fp': "\<forall>c\<in>set fp. isdigit c"
    using ip fp by (simp_all add: list_all_iff)
  have "CHR '','' \<notin> set ip" "CHR '','' \<notin> set fp"
    using ip' fp' isdigit_chars by auto
  then have "replace1 CHR '','' ''.'' (replace1 CHR ''.'' [] area) = ip @ CHR ''.'' # fp"
    by (simp add: replace1_filter flt replace1_append replace1_absent replace1_cons)
  then show ?thesis
    by (simp add: superficie_de_def py_float_point [OF ip' fp' ne len])
qed

lemma superficie_de_whole:
  assumes ip: "list_all isdigit ip" and ne: "ip \<noteq> []" and len: "length ip \<le> MAX_DIGITS"
    and flt: "filter (\<lambda>c. c \<noteq> CHR ''.'') area = ip"
  shows "superficie_de area = Inr (Some (binary64 False (nat_of_digits ip) 1))"
proof -
  have ip': "\<forall>c\<in>set ip. isdigit c"
    using ip by (simp add: list_all_iff)
  have "CHR '','' \<notin> set ip"
    using ip' isdigit_chars by auto
  then have "replace1 CHR '','' ''.'' (replace1 CHR ''.'' [] area) = ip"
    by (simp add: replace1_filter flt replace1_absent)
  then show ?thesis
    using ne by (simp add: superficie_de_def py_float_int [OF ip' ne len])
qed

lemma superficie_de_points:
  assumes "filter (\<lambda>c. c \<noteq> CHR ''.'') area = []"
  shows "superficie_de area = Inr None"
proof -
  have a: "replace1 CHR ''.'' [] area = []"
    unfolding replace1_filter by (rule assms)
  have e: "replace1 CHR '','' ''.'' [] = []"
    by (simp add: replace1_def)
  show ?thesis
    unfolding superficie_de_def a e by simp
qed

lemma superficie_de_1234: "superficie_de ''1.234,5'' = Inr (Some (Fin (2469 / 2)))"
  by (simp add: superficie_de_def replace1_def py_float_1234)

lemma superficie_de_075: "superficie_de ''0,75'' = Inr (Some (Fin (3 / 4)))"
  by (simp add: superficie_de_def replace1_def py_float_075)

lemma superficie_de_empty: "superficie_de [] = Inr None"
  by (simp add: superficie_de_def replace1_def)

lemma superficie_de_1e999: "superficie_de ''1e999'' = Inr (Some (Infinite False))"
  by (simp add: superficie_de_def replace1_def py_float_1e999)

text \<open>
  The area of the record is what the text of the cell of index 7 converts to, and a row
  has a record exactly when that text converts.
\<close>

lemma fila_de_superficie:
  "fila_de tds = Inr f \<Longrightarrow> superficie_de (get_text [] (tds ! 7)) = Inr (superficie_ha f)"
  by (auto simp: fila_de_def split: sum.splits)

lemma fila_de_superficie_conv:
  "superficie_de (get_text [] (tds ! 7)) = Inr a \<Longrightarrow> \<exists>f. fila_de tds = Inr f \<and> superficie_ha f = a"
  using parse_fecha_total [of "get_text [] (tds ! 1)"]
  by (auto simp: fila_de_def split: sum.splits)

lemma parsear_una_fila:
  assumes "superficie_de (strip a) = Inr x"
  shows "parsear_tabla_incendios (listado titulo_vigentes [Tag ''tbody'' [] [fila12 fecha_ej a]])
           = Inr [fila_ej\<lparr>superficie_ha := x\<rparr>]"
  by (simp add: parsear_tabla_incendios_def buscar_tbody_listado find_all_tr_fila12 cells12
      fila_de_fila12 [OF assms])

lemma parsear_1234:
  "parsear_tabla_incendios (listado titulo_vigentes [Tag ''tbody'' [] [fila12 fecha_ej ''1.234,5'']])
     = Inr [fila_ej]"
proof -
  have "superficie_de (strip ''1.234,5'') = Inr (Some (Fin (2469 / 2)))"
    by (simp add: superficie_de_1234 char_defs)
  from parsear_una_fila [OF this] show ?thesis by (simp add: fila_ej_def)
qed

lemma parsear_075:
  "parsear_tabla_incendios (listado titulo_vigentes [Tag ''tbody'' [] [fila12 fecha_ej ''0,75'']])
     = Inr [fila_ej\<lparr>superficie_ha := Some (Fin (3 / 4))\<rparr>]"
proof -
  have "superficie_de (strip ''0,75'') = Inr (Some (Fin (3 / 4)))"
    by (simp add: superficie_de_075 char_defs)
  from parsear_una_fila [OF this] show ?thesis .
qed

lemma parsear_vacia:
  "parsear_tabla_incendios (listado titulo_vigentes [Tag ''tbody'' [] [fila12 fecha_ej []]])
     = Inr [fila_ej\<lparr>superficie_ha := None\<rparr>]"
proof -
  have "superficie_de (strip []) = Inr None"
    by (simp add: superficie_de_empty char_defs)
  from parsear_una_fila [OF this] show ?thesis .
qed

text \<open>
  C4. The area of a row is read with \<open>.\<close> as the separator of thousands and \<open>,\<close> as the
  decimal separator: in a listing whose row has the area text \<open>1.234,5\<close> the record has
  \<open>superficie_ha\<close> 1234.5, with \<open>0,75\<close> it has 0.75, and with the empty text it has no
  area. The field is the conversion of the text of the cell of index 7 of the row, and the
  row has a record exactly when that text converts. In general the points are dropped
  wherever they stand; digits, a comma and digits give the binary64 number nearest to the
  decimal they write, with the digits after the comma as its decimals; digits alone give
  the binary64 number nearest to the integer they write (\<open>1.234\<close> is 1234, not 1.234);
  points alone give no area. The nearest binary64 number is infinity from about
  \<open>1.8e308\<close> on, and \<open>float\<close> takes at most \<open>MAX_DIGITS\<close> digits.
\<close>

theorem area_parsing:
  "parsear_tabla_incendios (listado titulo_vigentes [Tag ''tbody'' [] [fila12 fecha_ej ''1.234,5'']])
     = Inr [fila_ej]
   \<and> superficie_ha fila_ej = Some (Fin (2469 / 2))
   \<and> parsear_tabla_incendios (listado titulo_vigentes [Tag ''tbody'' [] [fila12 fecha_ej ''0,75'']])
     = Inr [fila_ej\<lparr>superficie_ha := Some (Fin (3 / 4))\<rparr>]
   \<and> parsear_tabla_incendios (listado titulo_vigentes [Tag ''tbody'' [] [fila12 fecha_ej []]])
     = Inr [fila_ej\<lparr>superficie_ha := None\<rparr>]
   \<and> superficie_de ''1.234,5'' = Inr (Some (Fin (2469 / 2)))
   \<and> superficie_de ''0,75'' = Inr (Some (Fin (3 / 4)))
   \<and> superficie_de [] = Inr None
   \<and> superficie_de ''1e999'' = Inr (Some (Infinite False))
   \<and> (fila_de tds = Inr f \<longrightarrow> superficie_de (get_text [] (tds ! 7)) = Inr (superficie_ha f))
   \<and> (superficie_de (get_text [] (tds' ! 7)) = Inr a
      \<longrightarrow> (\<exists>f'. fila_de tds' = Inr f' \<and> superficie_ha f' = a))
   \<and> (list_all isdigit ip \<and> list_all isdigit fp \<and> ip \<noteq> []
        \<and> length ip + length fp \<le> MAX_DIGITS
        \<and> filter (\<lambda>c. c \<noteq> CHR ''.'') area = ip @ CHR '','' # fp
      \<longrightarrow> superficie_de area
            = Inr (Some (binary64 False (nat_of_digits (ip @ fp)) (10 ^ length fp))))
   \<and> (list_all isdigit ds \<and> ds \<noteq> [] \<and> length ds \<le> MAX_DIGITS
        \<and> filter (\<lambda>c. c \<noteq> CHR ''.'') area' = ds
      \<longrightarrow> superficie_de area' = Inr (Some (binary64 False (nat_of_digits ds) 1)))
   \<and> (filter (\<lambda>c. c \<noteq> CHR ''.'') area'' = [] \<longrightarrow> superficie_de area'' = Inr None)"
proof -
  have "superficie_ha fila_ej = Some (Fin (2469 / 2))"
    by (simp add: fila_ej_def)
  then show ?thesis
    using parsear_1234 parsear_075 parsear_vacia superficie_de_1234 superficie_de_075
      superficie_de_empty superficie_de_1e999 fila_de_superficie [of tds f] fila_de_superficie_conv [of tds' a]
      superficie_de_comma [of ip fp area] superficie_de_whole [of ds area']
      superficie_de_points [of area'']
    by (intro conjI impI) blast+
qed

theorem area_parsing_witness:
  "fila_de (find_all [''td''] (fila12 fecha_ej ''1.234,5'')) = Inr fila_ej
   \<and> superficie_de (get_text [] (find_all [''td''] (fila12 fecha_ej ''1.234,5'') ! 7))
       = Inr (superficie_ha fila_ej)
   \<and> superficie_de (get_text [] (find_all [''td''] (fila12 fecha_ej ''0,75'') ! 7))
       = Inr (Some (Fin (3 / 4)))
   \<and> (\<exists>f'. fila_de (find_all [''td''] (fila12 fecha_ej ''0,75'')) = Inr f'
            \<and> superficie_ha f' = Some (Fin (3 / 4)))
   \<and> list_all isdigit ''12345'' \<and> list_all isdigit ''67''
   \<and> length ''12345'' + length ''67'' \<le> MAX_DIGITS
   \<and> filter (\<lambda>c. c \<noteq> CHR ''.'') ''12.345,67'' = ''12345'' @ CHR '','' # ''67''
   \<and> superficie_de ''12.345,67'' = Inr (Some (Fin (6787103858842665 / 549755813888)))
   \<and> list_all isdigit ''1234'' \<and> length ''1234'' \<le> MAX_DIGITS
   \<and> filter (\<lambda>c. c \<noteq> CHR ''.'') ''1.234'' = ''1234''
   \<and> superficie_de ''1.234'' = Inr (Some (Fin 1234))
   \<and> filter (\<lambda>c. c \<noteq> CHR ''.'') ''..'' = []
   \<and> superficie_de ''..'' = Inr None"
proof -
  note t = area_parsing [of "find_all [''td''] (fila12 fecha_ej ''1.234,5'')" fila_ej
      "find_all [''td''] (fila12 fecha_ej ''0,75'')" "Some (Fin (3 / 4))"
      "''12345''" "''67''" "''12.345,67''" "''1234''" "''1.234''" "''..''"]
  have h1: "fila_de (find_all [''td''] (fila12 fecha_ej ''1.234,5'')) = Inr fila_ej"
    using fila_de_ej by (simp add: fecha_ej_def)
  have h2: "superficie_de (get_text [] (find_all [''td''] (fila12 fecha_ej ''0,75'') ! 7))
              = Inr (Some (Fin (3 / 4)))"
    using t by (simp add: get_text_area char_defs)
  have h3: "list_all isdigit ''12345''" "list_all isdigit ''67''" "list_all isdigit ''1234''"
    by (simp_all add: isdigit_def)
  have h4: "length ''12345'' + length ''67'' \<le> MAX_DIGITS" "length ''1234'' \<le> MAX_DIGITS"
    by (simp_all add: MAX_DIGITS_def)
  have h5: "filter (\<lambda>c. c \<noteq> CHR ''.'') ''12.345,67'' = ''12345'' @ CHR '','' # ''67''"
    "filter (\<lambda>c. c \<noteq> CHR ''.'') ''1.234'' = ''1234''"
    "filter (\<lambda>c. c \<noteq> CHR ''.'') ''..'' = []"
    by simp_all
  have v1: "binary64 False (nat_of_digits (''12345'' @ ''67'')) (10 ^ length ''67'')
              = Fin (6787103858842665 / 549755813888)"
    by (simp add: char_defs) (simp add: binary64_defs)
  have v2: "binary64 False (nat_of_digits ''1234'') 1 = Fin 1234"
    by (simp add: char_defs) (simp add: binary64_defs)
  have c1: "superficie_de (get_text [] (find_all [''td''] (fila12 fecha_ej ''1.234,5'') ! 7))
              = Inr (superficie_ha fila_ej)"
    using t h1 by blast
  have c2: "\<exists>f'. fila_de (find_all [''td''] (fila12 fecha_ej ''0,75'')) = Inr f'
              \<and> superficie_ha f' = Some (Fin (3 / 4))"
    using t h2 by blast
  have c3: "superficie_de ''12.345,67'' = Inr (Some (Fin (6787103858842665 / 549755813888)))"
    using t h3 h4 h5 unfolding v1 [symmetric] by blast
  have c4: "superficie_de ''1.234'' = Inr (Some (Fin 1234))"
    using t h3 h4 h5 unfolding v2 [symmetric] by blast
  have c5: "superficie_de ''..'' = Inr None"
    using t h5 by blast
  show ?thesis
    using h1 h2 h3 h4 h5 c1 c2 c3 c4 c5 by blast
qed

end
